theory Spec2Isabelle
  imports Complex_Main "HOL-Library.AList"
begin

section \<open>Python values\<close>

text \<open>
  The client passes around untyped Python values: arguments that end up in URLs, request
  payloads, decoded JSON bodies. They are modelled by one datatype. A dictionary is an
  association list read with \<open>map_of\<close>; \<open>JNone\<close> is Python's \<open>None\<close>. A JSON string and
  a response's plain text are both Python strings, so both are \<open>JStr\<close>.
\<close>

datatype json =
    JNone
  | JBool bool
  | JInt int
  | JStr string
  | JList "json list"
  | JDict "(string \<times> json) list"

text \<open>Python truthiness, as tested by \<open>if x:\<close> and \<open>if not x:\<close>.\<close>

fun truthy :: "json \<Rightarrow> bool" where
  "truthy JNone = False"
| "truthy (JBool b) = b"
| "truthy (JInt n) = (n \<noteq> 0)"
| "truthy (JStr s) = (s \<noteq> [])"
| "truthy (JList xs) = (xs \<noteq> [])"
| "truthy (JDict kvs) = (kvs \<noteq> [])"

section \<open>Exceptions\<close>

text \<open>
  Modelled from the spec: the classes \<open>DocuSignException\<close> and \<open>DocuSignOAuth2Exception\<close>
  of the module \<open>pydocusign.exceptions\<close>, which is not among the sources. The spec calls
  the first "a generic client exception" and the second "a separate exception type"; they
  are two constructors. \<open>_request\<close> builds the first from a message, \<open>_create_envelope\<close>
  from the \<open>Response(status_code, text)\<close> tuple; the second is built from a decoded body.
  The other constructors are the exceptions that Python and the libraries raise by
  themselves, each carrying nothing.
\<close>

datatype exc_arg =
    Message string
  | Resp int string

datatype error =
    DocuSignException exc_arg
  | DocuSignOAuth2Exception json
  | RequestException string
  | PycurlError string
  | ValueError
  | OverflowError
  | KeyError
  | IndexError
  | TypeError
  | AttributeError

type_synonym 'a result = "error + 'a"

text \<open>Subscription \<open>x[key]\<close> with a string key, \<open>x[0]\<close>, \<open>x.get(key)\<close> and iteration.\<close>

fun getitem :: "json \<Rightarrow> string \<Rightarrow> json result" where
  "getitem (JDict kvs) k = (case map_of kvs k of None \<Rightarrow> Inl KeyError | Some v \<Rightarrow> Inr v)"
| "getitem _ k = Inl TypeError"

fun getitem0 :: "json \<Rightarrow> json result" where
  "getitem0 (JList xs) = (case xs of [] \<Rightarrow> Inl IndexError | x # _ \<Rightarrow> Inr x)"
| "getitem0 (JStr s) = (case s of [] \<Rightarrow> Inl IndexError | c # _ \<Rightarrow> Inr (JStr [c]))"
| "getitem0 (JDict kvs) = Inl KeyError"
| "getitem0 _ = Inl TypeError"

fun dict_get :: "json \<Rightarrow> string \<Rightarrow> json result" where
  "dict_get (JDict kvs) k = Inr (case map_of kvs k of None \<Rightarrow> JNone | Some v \<Rightarrow> v)"
| "dict_get _ k = Inl AttributeError"

fun iterate :: "json \<Rightarrow> json list result" where
  "iterate (JList xs) = Inr xs"
| "iterate (JStr s) = Inr (map (\<lambda>c. JStr [c]) s)"
| "iterate (JDict kvs) = Inr (map (\<lambda>kv. JStr (fst kv)) kvs)"
| "iterate _ = Inl TypeError"

section \<open>The client, the network and the libraries\<close>

text \<open>
  A Python float is a finite binary64 number, kept as the rational it denotes, or one of
  the three special values. The numbers a caller can hand to the client are integers and
  floats.
\<close>

datatype pyfloat = Finite rat | NaN | PosInf | NegInf

datatype number = IntVal int | FloatVal pyfloat

text \<open>
  The fields of \<open>DocuSignClient\<close>. The credentials and URLs are strings; \<open>account_id\<close> is
  whatever \<open>login_information\<close> reads from the response, so it is a \<open>json\<close>. The field
  \<open>timeout\<close> is the attribute \<open>_timeout\<close> behind the property of that name.
\<close>

record client =
  root_url :: string
  username :: string
  password :: string
  integrator_key :: string
  account_id :: json
  app_token :: string
  oauth2_token :: string
  account_url :: string
  timeout :: pyfloat

datatype http_method = GET | POST | PUT | DELETE

fun method_name :: "http_method \<Rightarrow> string" where
  "method_name GET = ''GET''"
| "method_name POST = ''POST''"
| "method_name PUT = ''PUT''"
| "method_name DELETE = ''DELETE''"

text \<open>
  What a request carries as its body: nothing, a string (\<open>json.dumps(data)\<close> or a multipart
  body), the caller's \<open>file_data\<close> as it is, or a dictionary that \<open>requests\<close> form-encodes.
\<close>

datatype payload =
    NoData
  | Body string
  | FileData json
  | Form "(string \<times> json) list"

datatype library = Requests | Pycurl

record request =
  via :: library
  req_method :: http_method
  req_url :: string
  req_headers :: "(string \<times> json) list"
  req_data :: payload
  req_timeout :: "pyfloat option"

record response =
  status_code :: int
  resp_headers :: "(string \<times> string) list"
  resp_text :: string

text \<open>
  Everything outside the repository is a parameter: the server (\<open>send\<close>, which sees the
  requests made before; \<open>Inl\<close> is the library's own exception with its text),
  \<open>json.dumps\<close>, \<open>json.loads\<close> / \<open>response.json()\<close> (\<open>None\<close> when the text is not JSON and the
  decoder raises \<open>ValueError\<close>), \<open>urllib.urlencode\<close>, and \<open>str\<close> as \<open>format\<close> applies it
  to a value that is not a string.
\<close>

record env =
  send :: "request list \<Rightarrow> request \<Rightarrow> string + response"
  dumps :: "json \<Rightarrow> string"
  loads :: "string \<Rightarrow> json option"
  urlencode :: "(string \<times> json) list \<Rightarrow> string"
  str_of :: "json \<Rightarrow> string"

definition fmt :: "env \<Rightarrow> json \<Rightarrow> string" where
  "fmt e v = (case v of JStr s \<Rightarrow> s | _ \<Rightarrow> str_of e v)"

definition response_json :: "env \<Rightarrow> response \<Rightarrow> json result" where
  "response_json e r = (case loads e (resp_text r) of None \<Rightarrow> Inl ValueError | Some j \<Rightarrow> Inr j)"

text \<open>
  The state a method runs in: the client object it mutates and the requests issued so
  far, oldest first. A method maps a world to its outcome and the world it leaves, also
  when it raises.
\<close>

record world =
  self :: client
  sent :: "request list"

type_synonym 'a io = "world \<Rightarrow> 'a result \<times> world"

definition bind_io :: "'a io \<Rightarrow> ('a \<Rightarrow> 'b io) \<Rightarrow> 'b io" where
  "bind_io m f w = (case m w of (Inl e, w') \<Rightarrow> (Inl e, w') | (Inr x, w') \<Rightarrow> f x w')"

definition return_io :: "'a \<Rightarrow> 'a io" where
  "return_io x w = (Inr x, w)"

definition lift_io :: "'a result \<Rightarrow> 'a io" where
  "lift_io r w = (r, w)"

text \<open>Issuing a request: it is recorded, then the server answers or the library raises.\<close>

definition perform :: "env \<Rightarrow> request \<Rightarrow> world \<Rightarrow> (string + response) \<times> world" where
  "perform e rq w = (send e (sent w) rq, w\<lparr>sent := sent w @ [rq]\<rparr>)"

section \<open>Construction and the connection timeout\<close>

text \<open>
  Float arithmetic rounds. The rounding is a parameter \<open>rnd\<close>: the binary64 number nearest
  to a rational, or \<open>None\<close> when the rational is too large, where multiplication and
  division give an infinity and the conversion of an integer raises \<open>OverflowError\<close>.
\<close>

definition rounded :: "(rat \<Rightarrow> rat option) \<Rightarrow> rat \<Rightarrow> pyfloat" where
  "rounded rnd q = (case rnd q of Some p \<Rightarrow> Finite p | None \<Rightarrow> if 0 < q then PosInf else NegInf)"

text \<open>The float written \<open>0.001\<close>: the binary64 number nearest to one thousandth.\<close>

definition lit_0_001 :: rat where
  "lit_0_001 = 1152921504606847 / 1152921504606846976"

text \<open>\<open>value < 0.001\<close>: exact on integers and finite floats, false for \<open>nan\<close>.\<close>

fun less_0_001 :: "number \<Rightarrow> bool" where
  "less_0_001 (IntVal n) = (of_int n < lit_0_001)"
| "less_0_001 (FloatVal (Finite q)) = (q < lit_0_001)"
| "less_0_001 (FloatVal NaN) = False"
| "less_0_001 (FloatVal PosInf) = False"
| "less_0_001 (FloatVal NegInf) = True"

text \<open>\<open>value * 1000\<close>: exact on an integer, rounded on a finite float.\<close>

fun times_1000 :: "(rat \<Rightarrow> rat option) \<Rightarrow> number \<Rightarrow> number" where
  "times_1000 rnd (IntVal n) = IntVal (n * 1000)"
| "times_1000 rnd (FloatVal (Finite q)) = FloatVal (rounded rnd (q * 1000))"
| "times_1000 rnd (FloatVal x) = FloatVal x"

text \<open>\<open>int(x)\<close>: truncation towards zero; \<open>nan\<close> and the infinities have no integer.\<close>

definition trunc :: "rat \<Rightarrow> int" where
  "trunc q = (if 0 \<le> q then \<lfloor>q\<rfloor> else \<lceil>q\<rceil>)"

fun py_int :: "number \<Rightarrow> int result" where
  "py_int (IntVal n) = Inr n"
| "py_int (FloatVal (Finite q)) = Inr (trunc q)"
| "py_int (FloatVal NaN) = Inl ValueError"
| "py_int (FloatVal PosInf) = Inl OverflowError"
| "py_int (FloatVal NegInf) = Inl OverflowError"

text \<open>\<open>n / 1000.\<close>: the integer is converted to a float, then divided.\<close>

definition div_1000 :: "(rat \<Rightarrow> rat option) \<Rightarrow> int \<Rightarrow> pyfloat result" where
  "div_1000 rnd n =
     (case rnd (of_int n) of
        None \<Rightarrow> Inl OverflowError
      | Some f \<Rightarrow> Inr (rounded rnd (f / 1000)))"

definition get_timeout :: "client \<Rightarrow> pyfloat" where
  "get_timeout c = timeout c"

definition set_timeout :: "(rat \<Rightarrow> rat option) \<Rightarrow> number \<Rightarrow> client \<Rightarrow> client result" where
  "set_timeout rnd v c =
     (if less_0_001 v then Inl ValueError
      else case py_int (times_1000 rnd v) of
             Inl err \<Rightarrow> Inl err
           | Inr n \<Rightarrow>
               (case div_1000 rnd n of
                  Inl err \<Rightarrow> Inl err
                | Inr t \<Rightarrow> Inr (c\<lparr>timeout := t\<rparr>)))"

text \<open>
  \<open>__init__\<close>. An argument left out or empty is replaced by its environment variable, or
  by the empty string; \<open>None\<close> and the empty string are both written \<open>[]\<close>. The environment
  is the list of its variables, and \<open>float\<close> of a string is a parameter \<open>parse\<close>, \<open>None\<close> when
  it raises \<open>ValueError\<close>. The timeout is assigned last, through the setter, so the object
  the setter is applied to has every other field; its own \<open>timeout\<close> field is not yet
  there and is written \<open>NaN\<close>.
\<close>

record init_args =
  arg_root_url :: string
  arg_username :: string
  arg_password :: string
  arg_integrator_key :: string
  arg_account_id :: string
  arg_account_url :: string
  arg_app_token :: string
  arg_oauth2_token :: string
  arg_timeout :: "number option"

definition or_environ :: "(string \<times> string) list \<Rightarrow> string \<Rightarrow> string \<Rightarrow> string" where
  "or_environ environ arg name =
     (if arg \<noteq> [] then arg
      else case map_of environ name of None \<Rightarrow> [] | Some v \<Rightarrow> v)"

definition init_fields :: "(string \<times> string) list \<Rightarrow> init_args \<Rightarrow> client" where
  "init_fields environ a =
     (let rooturl = or_environ environ (arg_root_url a) ''DOCUSIGN_ROOT_URL'';
          acct = or_environ environ (arg_account_id a) ''DOCUSIGN_ACCOUNT_ID''
      in \<lparr>root_url = rooturl,
          username = or_environ environ (arg_username a) ''DOCUSIGN_USERNAME'',
          password = or_environ environ (arg_password a) ''DOCUSIGN_PASSWORD'',
          integrator_key = or_environ environ (arg_integrator_key a) ''DOCUSIGN_INTEGRATOR_KEY'',
          account_id = JStr acct,
          app_token = or_environ environ (arg_app_token a) ''DOCUSIGN_APP_TOKEN'',
          oauth2_token = or_environ environ (arg_oauth2_token a) ''DOCUSIGN_OAUTH2_TOKEN'',
          account_url = (if rooturl \<noteq> [] \<and> acct \<noteq> [] \<and> arg_account_url a = []
                         then rooturl @ ''/accounts/'' @ acct else arg_account_url a),
          timeout = NaN\<rparr>)"

definition default_timeout :: "(string \<Rightarrow> pyfloat option) \<Rightarrow> (string \<times> string) list \<Rightarrow> number result" where
  "default_timeout parse environ =
     (case map_of environ ''DOCUSIGN_TIMEOUT'' of
        None \<Rightarrow> Inr (FloatVal (Finite 30))
      | Some v \<Rightarrow> (case parse v of None \<Rightarrow> Inl ValueError | Some x \<Rightarrow> Inr (FloatVal x)))"

definition init :: "(rat \<Rightarrow> rat option) \<Rightarrow> (string \<Rightarrow> pyfloat option) \<Rightarrow> (string \<times> string) list \<Rightarrow>
    init_args \<Rightarrow> client result" where
  "init rnd parse environ a =
     (case (case arg_timeout a of
              None \<Rightarrow> default_timeout parse environ
            | Some v \<Rightarrow> Inr v) of
        Inl err \<Rightarrow> Inl err
      | Inr v \<Rightarrow> set_timeout rnd v (init_fields environ a))"

text \<open>
  Two facts about rounding to the nearest binary64 number: integers up to \<open>2^53\<close> are
  exact, and in the normal range the result is within the relative error \<open>2^-53\<close>.
\<close>

definition binary64_like :: "(rat \<Rightarrow> rat option) \<Rightarrow> bool" where
  "binary64_like rnd =
     ((\<forall>n::int. \<bar>n\<bar> \<le> 2 ^ 53 \<longrightarrow> rnd (of_int n) = Some (of_int n)) \<and>
      (\<forall>q. 1 / 2 ^ 1022 \<le> \<bar>q\<bar> \<and> \<bar>q\<bar> \<le> 2 ^ 1023 \<longrightarrow>
           (\<exists>p. rnd q = Some p \<and> \<bar>p - q\<bar> \<le> \<bar>q\<bar> / 2 ^ 53)))"

section \<open>Headers and the generic request\<close>

definition base_headers :: "env \<Rightarrow> client \<Rightarrow> json \<Rightarrow> (string \<times> json) list" where
  "base_headers e c sobo_email =
     (let headers = [(''Accept'', JStr ''application/json''),
                     (''Content-Type'', JStr ''application/json'')]
      in if oauth2_token c \<noteq> [] then
           (let headers = AList.update ''Authorization'' (JStr (''Bearer '' @ oauth2_token c)) headers
            in if truthy sobo_email
               then AList.update ''X-DocuSign-Act-As-User'' sobo_email headers
               else headers)
         else
           (let auth = [(''Username'', JStr (username c)),
                        (''Password'', JStr (password c)),
                        (''IntegratorKey'', JStr (integrator_key c))];
                auth = (if truthy sobo_email
                        then AList.update ''SendOnBehalfOf'' sobo_email auth else auth)
            in AList.update ''X-DocuSign-Authentication'' (JStr (dumps e (JDict auth))) headers))"

text \<open>\<open>d.update(other)\<close>: every item of \<open>other\<close> is stored into \<open>d\<close>.\<close>

definition dict_update :: "(string \<times> json) list \<Rightarrow> (string \<times> json) list \<Rightarrow> (string \<times> json) list" where
  "dict_update d other = fold (\<lambda>kv. AList.update (fst kv) (snd kv)) other d"

text \<open>
  The headers of a response are \<open>requests\<close>' case-insensitive dictionary: \<open>get\<close> compares
  names after lowering both, so \<open>content-type\<close> is found under \<open>Content-Type\<close>. The list
  holds the dictionary's items; of two names that differ in case only, the first counts.
\<close>

definition lower_char :: "char \<Rightarrow> char" where
  "lower_char c =
     (case map_of (zip ''ABCDEFGHIJKLMNOPQRSTUVWXYZ'' ''abcdefghijklmnopqrstuvwxyz'') c of
        None \<Rightarrow> c | Some d \<Rightarrow> d)"

definition lower :: "string \<Rightarrow> string" where
  "lower s = map lower_char s"

definition header_get :: "(string \<times> string) list \<Rightarrow> string \<Rightarrow> string \<Rightarrow> string" where
  "header_get hs name dflt =
     (case map_of (map (\<lambda>kv. (lower (fst kv), snd kv)) hs) (lower name) of
        None \<Rightarrow> dflt | Some v \<Rightarrow> v)"

definition startswith :: "string \<Rightarrow> string \<Rightarrow> bool" where
  "startswith s p = (take (length p) s = p)"

definition request_error_msg :: "http_method \<Rightarrow> string \<Rightarrow> string \<Rightarrow> string" where
  "request_error_msg m do_url exception =
     ''DocuSign request error: '' @ method_name m @ '' '' @ do_url @ '' failed ; '' @
     ''Error: '' @ exception"

definition request_failed_msg :: "env \<Rightarrow> http_method \<Rightarrow> string \<Rightarrow> int \<Rightarrow> int \<Rightarrow> string \<Rightarrow> string" where
  "request_failed_msg e m do_url status expected message =
     ''DocuSign request failed: '' @ method_name m @ '' '' @ do_url @
     '' returned code '' @ fmt e (JInt status) @ '' '' @
     ''while expecting code '' @ fmt e (JInt expected) @ ''; '' @
     ''Message: '' @ message @ '' ; ''"

text \<open>
  \<open>_request(url, method, headers, data, file_data, expected_status_code, sobo_email)\<close> is
  \<open>request_io\<close>, and \<open>do_request\<close> is the call it hands to the library; a name cannot start
  with an underscore here, so the private methods lose theirs. Absent \<open>headers\<close> are the
  empty dictionary, absent \<open>data\<close>, \<open>file_data\<close> and \<open>sobo_email\<close> are \<open>JNone\<close>, and the
  default \<open>expected_status_code\<close> 200 is written out at every call.
\<close>

definition do_request :: "env \<Rightarrow> client \<Rightarrow> string \<Rightarrow> http_method \<Rightarrow> (string \<times> json) list \<Rightarrow>
    json \<Rightarrow> json \<Rightarrow> json \<Rightarrow> request" where
  "do_request e c url m headers data file_data sobo_email =
     (let do_url = root_url c @ url;
          do_headers = dict_update (base_headers e c sobo_email) headers;
          do_data = (if data \<noteq> JNone then Body (dumps e data) else NoData);
          do_data = (if truthy file_data then FileData file_data else do_data)
      in \<lparr>via = Requests, req_method = m, req_url = do_url, req_headers = do_headers,
          req_data = do_data, req_timeout = Some (timeout c)\<rparr>)"

definition request_io :: "env \<Rightarrow> string \<Rightarrow> http_method \<Rightarrow> (string \<times> json) list \<Rightarrow>
    json \<Rightarrow> json \<Rightarrow> int \<Rightarrow> json \<Rightarrow> json io" where
  "request_io e url m headers data file_data expected_status_code sobo_email w =
     (let rq = do_request e (self w) url m headers data file_data sobo_email
      in case perform e rq w of
           (Inl exception, w') \<Rightarrow>
             (Inl (DocuSignException (Message (request_error_msg m (req_url rq) exception))), w')
         | (Inr response, w') \<Rightarrow>
             if status_code response \<noteq> expected_status_code then
               (Inl (DocuSignException (Message
                  (request_failed_msg e m (req_url rq) (status_code response)
                     expected_status_code (resp_text response)))), w')
             else if startswith
                  (header_get (resp_headers response) ''Content-Type'' [])
                  ''application/json''
             then (response_json e response, w')
             else (Inr (JStr (resp_text response)), w'))"

text \<open>The shortcuts \<open>get\<close>, \<open>post\<close>, \<open>put\<close> and \<open>delete\<close>: \<open>_request\<close> with the method fixed.\<close>

definition get_io :: "env \<Rightarrow> string \<Rightarrow> (string \<times> json) list \<Rightarrow> json \<Rightarrow> json \<Rightarrow> int \<Rightarrow> json \<Rightarrow> json io" where
  "get_io e url headers data file_data expected sobo_email =
     request_io e url GET headers data file_data expected sobo_email"

definition post_io :: "env \<Rightarrow> string \<Rightarrow> (string \<times> json) list \<Rightarrow> json \<Rightarrow> json \<Rightarrow> int \<Rightarrow> json \<Rightarrow> json io" where
  "post_io e url headers data file_data expected sobo_email =
     request_io e url POST headers data file_data expected sobo_email"

definition put_io :: "env \<Rightarrow> string \<Rightarrow> (string \<times> json) list \<Rightarrow> json \<Rightarrow> json \<Rightarrow> int \<Rightarrow> json \<Rightarrow> json io" where
  "put_io e url headers data file_data expected sobo_email =
     request_io e url PUT headers data file_data expected sobo_email"

definition delete_io :: "env \<Rightarrow> string \<Rightarrow> (string \<times> json) list \<Rightarrow> json \<Rightarrow> json \<Rightarrow> int \<Rightarrow> json \<Rightarrow> json io" where
  "delete_io e url headers data file_data expected sobo_email =
     request_io e url DELETE headers data file_data expected sobo_email"

section \<open>Login and account\<close>

definition account_url_of :: "env \<Rightarrow> string \<Rightarrow> json \<Rightarrow> string" where
  "account_url_of e rooturl account = rooturl @ ''/accounts/'' @ fmt e account"

definition login_information :: "env \<Rightarrow> json io" where
  "login_information e =
     bind_io (get_io e ''/login_information'' [] JNone JNone 200 JNone) (\<lambda>data.
     bind_io (lift_io (getitem data ''loginAccounts'')) (\<lambda>accounts.
     bind_io (lift_io (getitem0 accounts)) (\<lambda>first.
     bind_io (lift_io (getitem first ''accountId'')) (\<lambda>account. (\<lambda>w.
       (let c = (self w)\<lparr>account_id := account\<rparr>;
            c = c\<lparr>account_url := account_url_of e (root_url c) (account_id c)\<rparr>
        in (Inr data, w\<lparr>self := c\<rparr>)))))))"

text \<open>
  The two class methods take no client: they run on the list of requests alone. The
  exception is built from \<open>response.json()\<close>, which is evaluated first and may raise.
\<close>

definition oauth2_request :: "string \<Rightarrow> (string \<times> json) list \<Rightarrow> request" where
  "oauth2_request url data =
     \<lparr>via = Requests, req_method = POST, req_url = url,
      req_headers = [(''Accept'', JStr ''application/json''),
                     (''Content-Type'', JStr ''application/x-www-form-urlencoded'')],
      req_data = Form data, req_timeout = None\<rparr>"

definition token_request :: "string \<Rightarrow> string \<Rightarrow> string \<Rightarrow> string \<Rightarrow> request" where
  "token_request rooturl user pass key =
     oauth2_request (rooturl @ ''/oauth2/token'')
       [(''grant_type'', JStr ''password''),
        (''client_id'', JStr key),
        (''username'', JStr user),
        (''password'', JStr pass),
        (''scope'', JStr ''api'')]"

definition revoke_request :: "string \<Rightarrow> json \<Rightarrow> request" where
  "revoke_request rooturl token =
     oauth2_request (rooturl @ ''/oauth2/revoke'') [(''token'', token)]"

definition oauth2_token_request :: "env \<Rightarrow> string \<Rightarrow> string \<Rightarrow> string \<Rightarrow> string \<Rightarrow>
    request list \<Rightarrow> json result \<times> request list" where
  "oauth2_token_request e rooturl user pass key hist =
     (let rq = token_request rooturl user pass key;
          hist' = hist @ [rq]
      in case send e hist rq of
           Inl exception \<Rightarrow> (Inl (RequestException exception), hist')
         | Inr response \<Rightarrow>
             if status_code response \<noteq> 200 then
               (case response_json e response of
                  Inl err \<Rightarrow> (Inl err, hist')
                | Inr body \<Rightarrow> (Inl (DocuSignOAuth2Exception body), hist'))
             else
               (case response_json e response of
                  Inl err \<Rightarrow> (Inl err, hist')
                | Inr body \<Rightarrow> (getitem body ''access_token'', hist')))"

definition oauth2_token_revoke :: "env \<Rightarrow> string \<Rightarrow> json \<Rightarrow>
    request list \<Rightarrow> json result \<times> request list" where
  "oauth2_token_revoke e rooturl token hist =
     (let rq = revoke_request rooturl token;
          hist' = hist @ [rq]
      in case send e hist rq of
           Inl exception \<Rightarrow> (Inl (RequestException exception), hist')
         | Inr response \<Rightarrow>
             if status_code response \<noteq> 200 then
               (case response_json e response of
                  Inl err \<Rightarrow> (Inl err, hist')
                | Inr body \<Rightarrow> (Inl (DocuSignOAuth2Exception body), hist'))
             else (Inr JNone, hist'))"

text \<open>
  \<open>get_account_information(account_id)\<close>: the argument is only compared with \<open>None\<close>; the
  path is filled with the client's own \<open>account_id\<close>.
\<close>

definition account_information_url :: "env \<Rightarrow> client \<Rightarrow> json \<Rightarrow> string" where
  "account_information_url e c account_id_arg =
     (if account_id_arg = JNone then account_url c
      else ''/accounts/'' @ fmt e (account_id c) @ ''/'')"

definition get_account_information :: "env \<Rightarrow> json \<Rightarrow> json io" where
  "get_account_information e account_id_arg w =
     get_io e (account_information_url e (self w) account_id_arg) [] JNone JNone 200 JNone w"

section \<open>Account-scoped operations\<close>

text \<open>
  Each of them starts with the same two lines,
  \<^verbatim>\<open>if not self.account_url: self.login_information()\<close>,
  whose result is dropped and whose exception, if any, ends the method.
\<close>

definition login_if_no_account_url :: "env \<Rightarrow> unit io" where
  "login_if_no_account_url e w =
     (if account_url (self w) = [] then bind_io (login_information e) (\<lambda>_. return_io ()) w
      else return_io () w)"

definition envelope_path :: "env \<Rightarrow> client \<Rightarrow> json \<Rightarrow> string" where
  "envelope_path e c envelope_id =
     ''/accounts/'' @ fmt e (account_id c) @ ''/envelopes/'' @ fmt e envelope_id"

definition get_envelope :: "env \<Rightarrow> json \<Rightarrow> json io" where
  "get_envelope e envelope_id =
     bind_io (login_if_no_account_url e) (\<lambda>_ w.
       get_io e (envelope_path e (self w) envelope_id @ ''/'') [] JNone JNone 200 JNone w)"

definition get_envelope_notification :: "env \<Rightarrow> json \<Rightarrow> json io" where
  "get_envelope_notification e envelope_id =
     bind_io (login_if_no_account_url e) (\<lambda>_ w.
       get_io e (envelope_path e (self w) envelope_id @ ''/notification/'')
         [] JNone JNone 200 JNone w)"

definition get_envelope_custom_fields :: "env \<Rightarrow> json \<Rightarrow> json io" where
  "get_envelope_custom_fields e envelope_id =
     bind_io (login_if_no_account_url e) (\<lambda>_ w.
       get_io e (envelope_path e (self w) envelope_id @ ''/custom_fields/'')
         [] JNone JNone 200 JNone w)"

definition post_envelope_custom_fields :: "env \<Rightarrow> json \<Rightarrow> json \<Rightarrow> json \<Rightarrow> json io" where
  "post_envelope_custom_fields e envelope_id text_custom_fields list_custom_fields =
     bind_io (login_if_no_account_url e) (\<lambda>_ w.
       post_io e (envelope_path e (self w) envelope_id @ ''/custom_fields/'') []
         (JDict [(''textCustomFields'', text_custom_fields),
                 (''listCustomFields'', list_custom_fields)])
         JNone 201 JNone w)"

definition put_envelope_custom_fields :: "env \<Rightarrow> json \<Rightarrow> json \<Rightarrow> json \<Rightarrow> json io" where
  "put_envelope_custom_fields e envelope_id text_custom_fields list_custom_fields =
     bind_io (login_if_no_account_url e) (\<lambda>_ w.
       put_io e (envelope_path e (self w) envelope_id @ ''/custom_fields/'') []
         (JDict [(''textCustomFields'', text_custom_fields),
                 (''listCustomFields'', list_custom_fields)])
         JNone 201 JNone w)"

definition void_envelope :: "env \<Rightarrow> json \<Rightarrow> json \<Rightarrow> json io" where
  "void_envelope e envelope_id voidedReason =
     bind_io (login_if_no_account_url e) (\<lambda>_ w.
       put_io e (envelope_path e (self w) envelope_id @ ''/'') []
         (JDict [(''status'', JStr ''voided''), (''voidedReason'', voidedReason)])
         JNone 200 JNone w)"

definition send_envelope :: "env \<Rightarrow> json \<Rightarrow> json io" where
  "send_envelope e envelope_id =
     bind_io (login_if_no_account_url e) (\<lambda>_ w.
       put_io e (envelope_path e (self w) envelope_id @ ''/'') []
         (JDict [(''status'', JStr ''sent'')]) JNone 200 JNone w)"

definition delete_envelope :: "env \<Rightarrow> json list \<Rightarrow> json io" where
  "delete_envelope e envelope_ids =
     bind_io (login_if_no_account_url e) (\<lambda>_ w.
       put_io e (''/accounts/'' @ fmt e (account_id (self w)) @ ''/folders/recyclebin/'') []
         (JDict [(''envelopeIds'', JList envelope_ids)]) JNone 200 JNone w)"

definition search_params :: "env \<Rightarrow> json \<Rightarrow> json \<Rightarrow> json \<Rightarrow> json \<Rightarrow> (string \<times> json) list" where
  "search_params e custom_field custom_field_value status from_date =
     (let params = [(''from_date'', from_date)];
          params = (if truthy custom_field \<and> truthy custom_field_value
                    then AList.update ''custom_field''
                           (JStr (fmt e custom_field @ ''='' @ fmt e custom_field_value)) params
                    else params)
      in if truthy status then AList.update ''status'' status params else params)"

definition search_envelopes :: "env \<Rightarrow> json \<Rightarrow> json \<Rightarrow> json \<Rightarrow> json \<Rightarrow> json io" where
  "search_envelopes e custom_field custom_field_value status from_date =
     bind_io (login_if_no_account_url e) (\<lambda>_ w.
       get_io e (''/accounts/'' @ fmt e (account_id (self w)) @ ''/envelopes/'' @ ''?'' @
                 urlencode e (search_params e custom_field custom_field_value status from_date))
         [] JNone JNone 200 JNone w)"

definition get_envelope_recipients :: "env \<Rightarrow> json \<Rightarrow> json io" where
  "get_envelope_recipients e envelopeId =
     bind_io (login_if_no_account_url e) (\<lambda>_ w.
       get_io e (envelope_path e (self w) envelopeId @ ''/recipients'')
         [] JNone JNone 200 JNone w)"

text \<open>The seven keyword arguments of \<open>post_recipient_view\<close>, in the order of its signature.\<close>

definition post_recipient_view :: "env \<Rightarrow> json \<Rightarrow> json \<Rightarrow> json \<Rightarrow> json \<Rightarrow> json \<Rightarrow> json \<Rightarrow> json \<Rightarrow> json io" where
  "post_recipient_view e authenticationMethod clientUserId email envelopeId returnUrl userId userName =
     bind_io (login_if_no_account_url e) (\<lambda>_ w.
       post_io e (envelope_path e (self w) envelopeId @ ''/views/recipient'') []
         (JDict [(''authenticationMethod'',
                    (if authenticationMethod = JNone then JStr ''none'' else authenticationMethod)),
                 (''clientUserId'', clientUserId),
                 (''email'', email),
                 (''envelopeId'', envelopeId),
                 (''returnUrl'', returnUrl),
                 (''userId'', userId),
                 (''userName'', userName)])
         JNone 201 JNone w)"

definition put_envelope_recipients :: "env \<Rightarrow> json \<Rightarrow> json \<Rightarrow> (string \<times> json) list \<Rightarrow> json io" where
  "put_envelope_recipients e envelope_id data params =
     bind_io (login_if_no_account_url e) (\<lambda>_ w.
       put_io e (envelope_path e (self w) envelope_id @ ''/recipients/'' @ ''?'' @ urlencode e params)
         [] data JNone 200 JNone w)"

definition get_envelope_document_list :: "env \<Rightarrow> json \<Rightarrow> json io" where
  "get_envelope_document_list e envelopeId =
     bind_io (login_if_no_account_url e) (\<lambda>_.
     bind_io (\<lambda>w. get_io e (envelope_path e (self w) envelopeId @ ''/documents'')
                     [] JNone JNone 200 JNone w) (\<lambda>data.
       lift_io (getitem data ''envelopeDocuments'')))"

text \<open>
  The two downloads call \<open>requests.get\<close> themselves, with \<open>stream=True\<close> and no timeout:
  no status code is checked, the library's exception is not translated, and the
  response is handed back as the stream to read.
\<close>

definition stream_get :: "env \<Rightarrow> string \<Rightarrow> response io" where
  "stream_get e url w =
     (let rq = \<lparr>via = Requests, req_method = GET, req_url = url,
                req_headers = base_headers e (self w) JNone, req_data = NoData,
                req_timeout = None\<rparr>
      in case perform e rq w of
           (Inl exception, w') \<Rightarrow> (Inl (RequestException exception), w')
         | (Inr response, w') \<Rightarrow> (Inr response, w'))"

definition get_envelope_document :: "env \<Rightarrow> json \<Rightarrow> json \<Rightarrow> response io" where
  "get_envelope_document e envelopeId documentId =
     bind_io (login_if_no_account_url e) (\<lambda>_ w.
       stream_get e (root_url (self w) @ envelope_path e (self w) envelopeId @
                     ''/documents/'' @ fmt e documentId) w)"

definition download_envelope_documents :: "env \<Rightarrow> json \<Rightarrow> json \<Rightarrow> json \<Rightarrow> response io" where
  "download_envelope_documents e envelope_id watermark certificate =
     bind_io (login_if_no_account_url e) (\<lambda>_ w.
       stream_get e (root_url (self w) @ envelope_path e (self w) envelope_id @
                     ''/documents/combined/'' @ ''?'' @
                     urlencode e [(''watermark'', watermark), (''certificate'', certificate)]) w)"

definition upload_document_to_envelope :: "env \<Rightarrow> json \<Rightarrow> json \<Rightarrow> json \<Rightarrow> json \<Rightarrow> json \<Rightarrow> json io" where
  "upload_document_to_envelope e envelope_id document_id content_type filename file_data =
     bind_io (login_if_no_account_url e) (\<lambda>_ w.
       put_io e (envelope_path e (self w) envelope_id @ ''/documents/'' @ fmt e document_id)
         [(''Content-Disposition'', JStr (''filename='' @ [CHR 0x22] @ fmt e filename @ [CHR 0x22])),
          (''Content-Type'', content_type)]
         JNone file_data 200 JNone w)"

text \<open>
  \<open>delete_envelope_documents\<close>: an argument that is not iterable is wrapped in a list.
  Lists, strings and dictionaries are the iterable values of \<open>json\<close>.
\<close>

definition document_list :: "json \<Rightarrow> json list" where
  "document_list document_ids =
     map (\<lambda>document_id. JDict [(''documentId'', document_id)])
       (case iterate document_ids of Inl _ \<Rightarrow> [document_ids] | Inr ids \<Rightarrow> ids)"

definition delete_envelope_documents :: "env \<Rightarrow> json \<Rightarrow> json \<Rightarrow> json io" where
  "delete_envelope_documents e envelope_id document_ids =
     bind_io (login_if_no_account_url e) (\<lambda>_ w.
       delete_io e (envelope_path e (self w) envelope_id @ ''/documents/'') []
         (if document_list document_ids \<noteq> []
          then JDict [(''documents'', JList (document_list document_ids))] else JDict [])
         JNone 200 JNone w)"

definition get_template :: "env \<Rightarrow> json \<Rightarrow> json io" where
  "get_template e templateId =
     bind_io (login_if_no_account_url e) (\<lambda>_ w.
       get_io e (''/accounts/'' @ fmt e (account_id (self w)) @ ''/templates/'' @ fmt e templateId)
         [] JNone JNone 200 JNone w)"

text \<open>
  The events of \<open>get_audit_events\<close> are dictionaries keyed by whatever the fields' names
  are: association lists over \<open>json\<close>, where a list or a dictionary is no key
  (\<open>TypeError\<close>) and \<open>True\<close> and \<open>1\<close> are the same key, as in Python.
\<close>

fun key_of :: "json \<Rightarrow> json" where
  "key_of (JBool b) = JInt (if b then 1 else 0)"
| "key_of v = v"

fun hashable :: "json \<Rightarrow> bool" where
  "hashable (JList _) = False"
| "hashable (JDict _) = False"
| "hashable _ = True"

fun setitem :: "json \<Rightarrow> json \<Rightarrow> (json \<times> json) list \<Rightarrow> (json \<times> json) list" where
  "setitem k v [] = [(k, v)]"
| "setitem k v (p # ps) =
     (if key_of (fst p) = key_of k then (fst p, v) # ps else p # setitem k v ps)"

fun event_of_fields :: "json list \<Rightarrow> (json \<times> json) list \<Rightarrow> (json \<times> json) list result" where
  "event_of_fields [] event = Inr event"
| "event_of_fields (event_field # fs) event =
     (case dict_get event_field ''name'' of
        Inl err \<Rightarrow> Inl err
      | Inr k \<Rightarrow>
          (case dict_get event_field ''value'' of
             Inl err \<Rightarrow> Inl err
           | Inr v \<Rightarrow> if hashable k then event_of_fields fs (setitem k v event)
                      else Inl TypeError))"

fun events_of :: "json list \<Rightarrow> (json \<times> json) list list result" where
  "events_of [] = Inr []"
| "events_of (audit_event # rest) =
     (case dict_get audit_event ''eventFields'' of
        Inl err \<Rightarrow> Inl err
      | Inr event_fields \<Rightarrow>
          (case iterate event_fields of
             Inl err \<Rightarrow> Inl err
           | Inr fs \<Rightarrow>
               (case event_of_fields fs [] of
                  Inl err \<Rightarrow> Inl err
                | Inr event \<Rightarrow>
                    (case events_of rest of
                       Inl err \<Rightarrow> Inl err
                     | Inr events \<Rightarrow> Inr (event # events)))))"

definition audit_events_of :: "json \<Rightarrow> (json \<times> json) list list result" where
  "audit_events_of data =
     (case dict_get data ''auditEvents'' of
        Inl err \<Rightarrow> Inl err
      | Inr evs \<Rightarrow> (case iterate evs of Inl err \<Rightarrow> Inl err | Inr xs \<Rightarrow> events_of xs))"

definition get_audit_events :: "env \<Rightarrow> json \<Rightarrow> (json \<times> json) list list io" where
  "get_audit_events e envelopeId =
     bind_io (login_if_no_account_url e) (\<lambda>_.
     bind_io (\<lambda>w. get_io e (envelope_path e (self w) envelopeId @ ''/audit_events'')
                     [] JNone JNone 200 JNone w) (\<lambda>data.
       lift_io (audit_events_of data)))"

section \<open>Envelope creation\<close>

text \<open>
  Modelled from the spec: the envelope and its documents, objects of the module
  \<open>pydocusign.models\<close>, which is not among the sources. Only what the client reads and
  writes is kept: the attributes \<open>client\<close>, \<open>envelopeId\<close>, \<open>documents\<close> and \<open>sobo_email\<close>, and
  the dictionary that \<open>to_dict()\<close> returns, taken as given. A document has a \<open>name\<close>, a
  \<open>documentId\<close> and \<open>data\<close>, a file object: its bytes and the position of the next read.
  \<open>envelope.client\<close> is a reference to a client object or \<open>None\<close>; the methods that store
  \<open>self\<close> there are given the reference of the client they run on.
\<close>

record fileobj =
  content :: string
  pos :: nat

definition seek :: "nat \<Rightarrow> fileobj \<Rightarrow> fileobj" where
  "seek n f = f\<lparr>pos := n\<rparr>"

definition read :: "fileobj \<Rightarrow> string \<times> fileobj" where
  "read f = (drop (pos f) (content f), f\<lparr>pos := max (pos f) (length (content f))\<rparr>)"

record document =
  doc_name :: json
  documentId :: json
  doc_data :: fileobj

datatype ref = Ref nat

record envelope =
  env_client :: "ref option"
  envelopeId :: json
  documents :: "document list"
  sobo_email :: json
  to_dict :: json

record parts =
  parts_url :: string
  parts_headers :: "(string \<times> json) list"
  parts_body :: string

definition crlf :: string where
  "crlf = [CHR 0x0D, CHR 0x0A]"

definition document_part :: "env \<Rightarrow> json \<Rightarrow> json \<Rightarrow> string \<Rightarrow> string" where
  "document_part e filename docId file_data =
     ''--myboundary'' @ crlf @
     ''Content-Type:application/pdf'' @ crlf @
     ''Content-Disposition: file; '' @
     ''filename='' @ [CHR 0x22] @ fmt e filename @ [CHR 0x22] @ ''; '' @
     ''documentId='' @ fmt e docId @ '' '' @ crlf @
     crlf @
     file_data @ crlf @
     crlf"

text \<open>The loop over \<open>envelope.documents\<close>: each file is rewound, read, and left at its end.\<close>

fun docs_loop :: "env \<Rightarrow> string \<Rightarrow> document list \<Rightarrow> string \<times> document list" where
  "docs_loop e docs_body [] = (docs_body, [])"
| "docs_loop e docs_body (d # ds) =
     (let (file_data, f) = read (seek 0 (doc_data d));
          docs_body = docs_body @ document_part e (doc_name d) (documentId d) file_data;
          (docs_body, ds') = docs_loop e docs_body ds
      in (docs_body, d\<lparr>doc_data := f\<rparr> # ds'))"

definition document_request_body :: "env \<Rightarrow> json \<Rightarrow> string \<Rightarrow> string" where
  "document_request_body e data docs_body =
     crlf @
     crlf @
     ''--myboundary'' @ crlf @
     ''Content-Type: application/json; charset=UTF-8'' @ crlf @
     ''Content-Disposition: form-data'' @ crlf @
     crlf @
     dumps e data @ crlf @
     ''--myboundary'' @ crlf @
     docs_body @
     ''--myboundary--'' @ crlf @
     crlf"

definition template_request_body :: "env \<Rightarrow> json \<Rightarrow> string" where
  "template_request_body e data =
     crlf @
     crlf @
     ''--myboundary'' @ crlf @
     ''Content-Type: application/json; charset=UTF-8'' @ crlf @
     ''Content-Disposition: form-data'' @ crlf @
     crlf @
     dumps e data @ crlf @
     ''--myboundary--'' @ crlf @
     crlf"

definition multipart_headers :: "env \<Rightarrow> client \<Rightarrow> json \<Rightarrow> string \<Rightarrow> (string \<times> json) list" where
  "multipart_headers e c sobo body =
     AList.update ''Content-Length'' (JInt (int (length body)))
       (AList.update ''Content-Type'' (JStr ''multipart/form-data; boundary=myboundary'')
          (base_headers e c sobo))"

definition create_envelope_from_document_request :: "env \<Rightarrow> envelope \<Rightarrow> (parts \<times> envelope) io" where
  "create_envelope_from_document_request e envelope =
     bind_io (login_if_no_account_url e) (\<lambda>_ w.
       (let url = account_url (self w) @ ''/envelopes'';
            data = to_dict envelope;
            (docs_body, docs) = docs_loop e [] (documents envelope);
            body = document_request_body e data docs_body;
            headers = multipart_headers e (self w) JNone body
        in (Inr (\<lparr>parts_url = url, parts_headers = headers, parts_body = body\<rparr>,
                 envelope\<lparr>documents := docs\<rparr>), w)))"

definition create_envelope_from_template_request :: "env \<Rightarrow> envelope \<Rightarrow> parts io" where
  "create_envelope_from_template_request e envelope =
     bind_io (login_if_no_account_url e) (\<lambda>_ w.
       (let url = account_url (self w) @ ''/envelopes'';
            data = to_dict envelope;
            body = template_request_body e data;
            headers = multipart_headers e (self w) (sobo_email envelope) body
        in (Inr \<lparr>parts_url = url, parts_headers = headers, parts_body = body\<rparr>, w)))"

text \<open>
  \<open>_create_envelope(envelope, parts)\<close> posts through \<open>pycurl\<close>. The request recorded keeps the
  URL, the header dictionary (the source hands over its items as \<open>key: value\<close> lines) and the
  body. The answer is the \<open>Response(status_code, text)\<close> tuple; \<open>pycurl\<close>'s own exception is
  not caught. The envelope is returned as the method leaves it, also when it raises.
\<close>

definition curl_request :: "client \<Rightarrow> parts \<Rightarrow> request" where
  "curl_request c p =
     \<lparr>via = Pycurl, req_method = POST, req_url = parts_url p, req_headers = parts_headers p,
      req_data = Body (parts_body p), req_timeout = Some (timeout c)\<rparr>"

definition create_envelope :: "env \<Rightarrow> ref \<Rightarrow> envelope \<Rightarrow> parts \<Rightarrow> world \<Rightarrow>
    (json result \<times> envelope) \<times> world" where
  "create_envelope e this envelope p w =
     (case perform e (curl_request (self w) p) w of
        (Inl exception, w') \<Rightarrow> ((Inl (PycurlError exception), envelope), w')
      | (Inr response, w') \<Rightarrow>
          if status_code response \<noteq> 201 then
            ((Inl (DocuSignException (Resp (status_code response) (resp_text response))),
              envelope), w')
          else
            (case loads e (resp_text response) of
               None \<Rightarrow> ((Inl ValueError, envelope), w')
             | Some response_data \<Rightarrow>
                 (let envelope = (if env_client envelope = None
                                  then envelope\<lparr>env_client := Some this\<rparr> else envelope)
                  in if \<not> truthy (envelopeId envelope) then
                       (case getitem response_data ''envelopeId'' of
                          Inl err \<Rightarrow> ((Inl err, envelope), w')
                        | Inr v \<Rightarrow> ((Inr v, envelope\<lparr>envelopeId := v\<rparr>), w'))
                     else ((getitem response_data ''envelopeId'', envelope), w'))))"

definition create_envelope_from_document :: "env \<Rightarrow> ref \<Rightarrow> envelope \<Rightarrow> world \<Rightarrow>
    (json result \<times> envelope) \<times> world" where
  "create_envelope_from_document e this envelope w =
     (case create_envelope_from_document_request e envelope w of
        (Inl err, w') \<Rightarrow> ((Inl err, envelope), w')
      | (Inr (p, envelope'), w') \<Rightarrow> create_envelope e this envelope' p w')"

definition create_envelope_from_template :: "env \<Rightarrow> ref \<Rightarrow> envelope \<Rightarrow> world \<Rightarrow>
    (json result \<times> envelope) \<times> world" where
  "create_envelope_from_template e this envelope w =
     (case create_envelope_from_template_request e envelope w of
        (Inl err, w') \<Rightarrow> ((Inl err, envelope), w')
      | (Inr p, w') \<Rightarrow> create_envelope e this envelope p w')"

section \<open>The operations as data\<close>

text \<open>
  To speak about every account-scoped method at once, a call of one of them with its
  arguments is a value, and \<open>run\<close> performs the call, keeping whether it raised and the
  world it leaves.
\<close>

datatype operation =
    Get_envelope json
  | Get_envelope_notification json
  | Get_envelope_custom_fields json
  | Post_envelope_custom_fields json json json
  | Put_envelope_custom_fields json json json
  | Void_envelope json json
  | Send_envelope json
  | Delete_envelope "json list"
  | Search_envelopes json json json json
  | Get_envelope_recipients json
  | Post_recipient_view json json json json json json json
  | Put_envelope_recipients json json "(string \<times> json) list"
  | Get_envelope_document_list json
  | Get_envelope_document json json
  | Download_envelope_documents json json json
  | Upload_document_to_envelope json json json json json
  | Delete_envelope_documents json json
  | Get_template json
  | Get_audit_events json
  | Create_envelope_from_document_request envelope
  | Create_envelope_from_template_request envelope

definition outcome :: "'a result \<times> world \<Rightarrow> error option \<times> world" where
  "outcome p = (case fst p of Inl err \<Rightarrow> Some err | Inr _ \<Rightarrow> None, snd p)"

fun run :: "env \<Rightarrow> operation \<Rightarrow> world \<Rightarrow> error option \<times> world" where
  "run e (Get_envelope i) w = outcome (get_envelope e i w)"
| "run e (Get_envelope_notification i) w = outcome (get_envelope_notification e i w)"
| "run e (Get_envelope_custom_fields i) w = outcome (get_envelope_custom_fields e i w)"
| "run e (Post_envelope_custom_fields i t l) w = outcome (post_envelope_custom_fields e i t l w)"
| "run e (Put_envelope_custom_fields i t l) w = outcome (put_envelope_custom_fields e i t l w)"
| "run e (Void_envelope i r) w = outcome (void_envelope e i r w)"
| "run e (Send_envelope i) w = outcome (send_envelope e i w)"
| "run e (Delete_envelope ids) w = outcome (delete_envelope e ids w)"
| "run e (Search_envelopes f v s d) w = outcome (search_envelopes e f v s d w)"
| "run e (Get_envelope_recipients i) w = outcome (get_envelope_recipients e i w)"
| "run e (Post_recipient_view a c m i r u n) w = outcome (post_recipient_view e a c m i r u n w)"
| "run e (Put_envelope_recipients i d ps) w = outcome (put_envelope_recipients e i d ps w)"
| "run e (Get_envelope_document_list i) w = outcome (get_envelope_document_list e i w)"
| "run e (Get_envelope_document i d) w = outcome (get_envelope_document e i d w)"
| "run e (Download_envelope_documents i wm c) w = outcome (download_envelope_documents e i wm c w)"
| "run e (Upload_document_to_envelope i d c n f) w = outcome (upload_document_to_envelope e i d c n f w)"
| "run e (Delete_envelope_documents i ds) w = outcome (delete_envelope_documents e i ds w)"
| "run e (Get_template t) w = outcome (get_template e t w)"
| "run e (Get_audit_events i) w = outcome (get_audit_events e i w)"
| "run e (Create_envelope_from_document_request v) w = outcome (create_envelope_from_document_request e v w)"
| "run e (Create_envelope_from_template_request v) w = outcome (create_envelope_from_template_request e v w)"

definition login_request :: "env \<Rightarrow> client \<Rightarrow> request" where
  "login_request e c = do_request e c ''/login_information'' GET [] JNone JNone JNone"

section \<open>Requests an operation adds\<close>

text \<open>
  Two predicates for reasoning about the requests a method issues. A computation is
  \<open>own\<close> when it leaves the world as it is or adds one request whose URL is \<open>root_url\<close>
  followed by \<open>/accounts/\<close>. A run from \<open>w\<close> to \<open>w'\<close> is guarded by login when, with no
  \<open>account_url\<close> in \<open>w\<close>, its first new request is the login request, and otherwise it
  only did what an \<open>own\<close> computation does.
\<close>

definition own :: "'a io \<Rightarrow> bool" where
  "own body = (\<forall>w. snd (body w) = w \<or>
      (\<exists>rq p. snd (body w) = w\<lparr>sent := sent w @ [rq]\<rparr> \<and>
               req_url rq = root_url (self w) @ ''/accounts/'' @ p))"

definition guarded_by_login :: "env \<Rightarrow> world \<Rightarrow> world \<Rightarrow> bool" where
  "guarded_by_login e w w' =
    ((account_url (self w) = [] \<longrightarrow>
       (\<exists>rest. sent w' = sent w @ login_request e (self w) # rest)) \<and>
     (account_url (self w) \<noteq> [] \<longrightarrow>
       (w' = w \<or> (\<exists>rq p. w' = w\<lparr>sent := sent w @ [rq]\<rparr> \<and>
                     req_url rq = root_url (self w) @ ''/accounts/'' @ p))))"

section \<open>Concrete inputs\<close>

text \<open>
  A server that answers every request with the same status code, content type and text,
  a decoder that gives the same value for every text, \<open>str\<close> of an integer as its
  decimal digits, and a client with nothing configured but its root URL and credentials.
\<close>

fun decimal :: "nat \<Rightarrow> string" where
  "decimal n = (if n < 10 then [''0123456789'' ! n]
                else decimal (n div 10) @ [''0123456789'' ! (n mod 10)])"

declare decimal.simps [simp del]

definition str_int :: "json \<Rightarrow> string" where
  "str_int v = (case v of
                  JInt i \<Rightarrow> (if i < 0 then ''-'' @ decimal (nat (- i)) else decimal (nat i))
                | _ \<Rightarrow> ''None'')"

definition canned :: "int \<Rightarrow> string \<Rightarrow> json option \<Rightarrow> env" where
  "canned status ctype decoded =
     \<lparr>send = (\<lambda>_ _. Inr \<lparr>status_code = status, resp_headers = [(''Content-Type'', ctype)],
                            resp_text = ''body''\<rparr>),
      dumps = (\<lambda>_. ''{}''),
      loads = (\<lambda>_. decoded),
      urlencode = (\<lambda>_. []),
      str_of = str_int\<rparr>"

definition client0 :: client where
  "client0 = \<lparr>root_url = ''https://h/v2'', username = ''u'', password = ''p'',
              integrator_key = ''k'', account_id = JStr [], app_token = [],
              oauth2_token = [], account_url = [], timeout = Finite 30\<rparr>"

definition world0 :: world where
  "world0 = \<lparr>self = client0, sent = []\<rparr>"

text \<open>The same client after a login that resolved account 42.\<close>

definition world1 :: world where
  "world1 = \<lparr>self = client0\<lparr>account_id := JStr ''42'',
                               account_url := ''https://h/v2/accounts/42''\<rparr>,
              sent = []\<rparr>"

text \<open>An envelope with one document, whose file has been read to its end before.\<close>

definition envelope1 :: envelope where
  "envelope1 = \<lparr>env_client = None, envelopeId = JNone,
                 documents = [\<lparr>doc_name = JStr ''a.pdf'', documentId = JInt 1,
                               doc_data = \<lparr>content = ''PDF'', pos = 3\<rparr>\<rparr>],
                 sobo_email = JNone, to_dict = JDict []\<rparr>"

section \<open>What the generic request does\<close>

text \<open>Every call issues exactly one request, whatever the outcome.\<close>

lemma request_io_sent:
  "snd (request_io e url m hs d f x s w) = w\<lparr>sent := sent w @ [do_request e (self w) url m hs d f s]\<rparr>"
  by (simp add: request_io_def perform_def Let_def split: sum.splits prod.splits)

lemma do_request_url: "req_url (do_request e c url m hs d f s) = root_url c @ url"
  by (simp add: do_request_def Let_def)

lemma request_io_result:
  assumes "send e (sent w) (do_request e (self w) url m hs d f s) = Inr r"
  shows "fst (request_io e url m hs d f x s w) =
     (if status_code r \<noteq> x then
        Inl (DocuSignException (Message
          (request_failed_msg e m (root_url (self w) @ url) (status_code r) x (resp_text r))))
      else if startswith (header_get (resp_headers r) ''Content-Type'' [])
                ''application/json''
      then response_json e r else Inr (JStr (resp_text r)))"
  using assms
  by (simp add: request_io_def perform_def Let_def do_request_def split: sum.splits prod.splits)

lemma create_envelope_result:
  assumes "send e (sent w) (curl_request (self w) p) = Inr r"
  shows "fst (fst (create_envelope e this envelope p w)) =
     (if status_code r \<noteq> 201 then Inl (DocuSignException (Resp (status_code r) (resp_text r)))
      else case loads e (resp_text r) of
             None \<Rightarrow> Inl ValueError
           | Some response_data \<Rightarrow> getitem response_data ''envelopeId'')"
  using assms
  by (simp add: create_envelope_def perform_def Let_def split: sum.splits option.splits)

lemma getitem_not_docusign: "getitem v k \<noteq> Inl (DocuSignException a)"
  by (cases v) (auto split: option.splits)

lemma getitem_Inr:
  "getitem v k = Inr x \<Longrightarrow> \<exists>kvs. v = JDict kvs \<and> map_of kvs k = Some x"
  by (cases v) (auto split: option.splits)

lemma getitem0_Inr_dict:
  "getitem0 v = Inr (JDict fd) \<Longrightarrow> \<exists>rest. v = JList (JDict fd # rest)"
  by (cases v) (auto split: list.splits)

lemma document_request_envelope:
  assumes "create_envelope_from_document_request e v w0 = (Inr (p, v'), w)"
  shows "\<exists>ds. v' = v\<lparr>documents := ds\<rparr>"
  using assms
  by (auto simp: create_envelope_from_document_request_def bind_io_def Let_def
           split: prod.splits sum.splits)

lemma stream_get_sent:
  "snd (stream_get e url w) =
     w\<lparr>sent := sent w @ [\<lparr>via = Requests, req_method = GET, req_url = url,
                req_headers = base_headers e (self w) JNone, req_data = NoData,
                req_timeout = None\<rparr>]\<rparr>"
  by (simp add: stream_get_def perform_def Let_def split: sum.splits prod.splits)

lemma bind_lift_snd: "snd (bind_io m (\<lambda>x. lift_io (f x)) w) = snd (m w)"
  by (simp add: bind_io_def lift_io_def split: prod.splits sum.splits)

lemma login_information_world:
  "\<exists>c. snd (login_information e w) = \<lparr>self = c, sent = sent w @ [login_request e (self w)]\<rparr>"
proof -
  let ?g = "get_io e ''/login_information'' [] JNone JNone 200 JNone"
  have g: "snd (?g w) = w\<lparr>sent := sent w @ [login_request e (self w)]\<rparr>"
    by (simp add: get_io_def request_io_sent login_request_def)
  obtain r wg where rw: "?g w = (r, wg)" by (cases "?g w")
  with g have wg: "wg = w\<lparr>sent := sent w @ [login_request e (self w)]\<rparr>" by simp
  show ?thesis
    unfolding login_information_def bind_io_def lift_io_def rw
    by (cases w) (simp add: wg Let_def split: sum.splits)
qed

lemma guardedI:
  assumes "own body"
  shows "guarded_by_login e w (snd (bind_io (login_if_no_account_url e) (\<lambda>_. body) w))"
proof (cases "account_url (self w) = []")
  case False
  then have "bind_io (login_if_no_account_url e) (\<lambda>_. body) w = body w"
    by (simp add: bind_io_def login_if_no_account_url_def return_io_def)
  with False assms show ?thesis by (simp add: own_def guarded_by_login_def)
next
  case True
  obtain c where c: "snd (login_information e w) = \<lparr>self = c, sent = sent w @ [login_request e (self w)]\<rparr>"
    using login_information_world by blast
  obtain r w1 where l: "login_information e w = (r, w1)" by (cases "login_information e w")
  with c have w1: "sent w1 = sent w @ [login_request e (self w)]" by simp
  show ?thesis
  proof (cases r)
    case (Inl err)
    with True l w1 show ?thesis
      by (simp add: bind_io_def login_if_no_account_url_def return_io_def guarded_by_login_def)
  next
    case (Inr x)
    with True l have "bind_io (login_if_no_account_url e) (\<lambda>_. body) w = body w1"
      by (simp add: bind_io_def login_if_no_account_url_def return_io_def)
    moreover from assms have "snd (body w1) = w1 \<or> (\<exists>rq. snd (body w1) = w1\<lparr>sent := sent w1 @ [rq]\<rparr>)"
      by (auto simp: own_def)
    ultimately show ?thesis using True w1 by (auto simp: guarded_by_login_def)
  qed
qed

lemma own_request:
  "own (\<lambda>w. request_io e (''/accounts/'' @ p w) m hs d f x s w)"
  unfolding own_def by (auto simp: request_io_sent do_request_url)

lemma own_stream:
  "own (\<lambda>w. stream_get e (root_url (self w) @ ''/accounts/'' @ p w) w)"
  unfolding own_def by (auto simp: stream_get_sent)

lemma own_bind_lift:
  "own m \<Longrightarrow> own (bind_io m (\<lambda>x. lift_io (f x)))"
  unfolding own_def by (simp add: bind_lift_snd)

lemma own_pure: "own (\<lambda>w. (Inr (g w), w))"
  unfolding own_def by simp

lemmas op_defs =
  get_envelope_def get_envelope_notification_def get_envelope_custom_fields_def
  post_envelope_custom_fields_def put_envelope_custom_fields_def void_envelope_def
  send_envelope_def delete_envelope_def search_envelopes_def get_envelope_recipients_def
  post_recipient_view_def put_envelope_recipients_def get_envelope_document_list_def
  get_envelope_document_def download_envelope_documents_def upload_document_to_envelope_def
  delete_envelope_documents_def get_template_def get_audit_events_def
  create_envelope_from_document_request_def create_envelope_from_template_request_def

lemma run_guarded: "guarded_by_login e w (snd (run e op w))"
  by (cases op)
     (simp_all only: run.simps outcome_def snd_conv op_defs get_io_def put_io_def post_io_def
        delete_io_def envelope_path_def append_assoc Let_def split_def,
      (rule guardedI,
       (rule own_request | rule own_stream | rule own_pure | (rule own_bind_lift, rule own_request)))+)

lemma docs_loop_body:
  "fst (docs_loop e acc (d # ds)) =
     acc @ document_part e (doc_name d) (documentId d) (content (doc_data d)) @
     fst (docs_loop e [] ds)"
proof (induction ds arbitrary: acc d)
  case Nil
  show ?case by (simp add: read_def seek_def split: prod.splits)
next
  case (Cons x xs)
  have "fst (docs_loop e acc (d # x # xs)) =
          fst (docs_loop e (acc @ document_part e (doc_name d) (documentId d) (content (doc_data d))) (x # xs))"
    by (simp add: read_def seek_def split: prod.splits)
  also have "\<dots> = (acc @ document_part e (doc_name d) (documentId d) (content (doc_data d))) @
          document_part e (doc_name x) (documentId x) (content (doc_data x)) @ fst (docs_loop e [] xs)"
    by (rule Cons.IH)
  also have "document_part e (doc_name x) (documentId x) (content (doc_data x)) @ fst (docs_loop e [] xs) =
             fst (docs_loop e [] (x # xs))"
    using Cons.IH [of "[]" x] by simp
  finally show ?case by simp
qed

lemma document_request_body_two_delimiters:
  "\<exists>post.
     document_request_body e data (fst (docs_loop e [] (d # ds))) =
       crlf @ crlf @ ''--myboundary'' @ crlf @
       ''Content-Type: application/json; charset=UTF-8'' @ crlf @
       ''Content-Disposition: form-data'' @ crlf @ crlf @
       dumps e data @ crlf @
       ''--myboundary'' @ crlf @
       ''--myboundary'' @ crlf @ post"
proof -
  obtain rest where rest: "fst (docs_loop e [] (d # ds)) = ''--myboundary'' @ crlf @ rest"
    by (simp only: docs_loop_body document_part_def append_Nil append_assoc)
  show ?thesis
    unfolding rest document_request_body_def
    by (intro exI [of _ "rest @ ''--myboundary--'' @ crlf @ crlf"])
       (simp only: append_assoc)
qed

lemmas eval_defs =
  request_io_def do_request_def perform_def base_headers_def dict_update_def startswith_def
  header_get_def lower_def lower_char_def response_json_def request_failed_msg_def fmt_def canned_def str_int_def world0_def
  world1_def client0_def Let_def

section \<open>Header construction\<close>

text \<open>
  Claim C2. \<open>base_headers\<close> always holds \<open>Accept: application/json\<close> and
  \<open>Content-Type: application/json\<close>. With a non-empty \<open>oauth2_token\<close> it holds
  \<open>Authorization\<close>, which is \<open>Bearer\<close>, a blank and the token, it holds
  \<open>X-DocuSign-Act-As-User\<close> with the value of \<open>sobo_email\<close> exactly when \<open>sobo_email\<close> is
  given (not \<open>None\<close> and not empty), and it holds no \<open>X-DocuSign-Authentication\<close>. With an
  empty \<open>oauth2_token\<close> it holds \<open>X-DocuSign-Authentication\<close>, which is \<open>json.dumps\<close> of the
  dictionary of \<open>Username\<close>, \<open>Password\<close> and \<open>IntegratorKey\<close>, extended by \<open>SendOnBehalfOf\<close>
  with the value of \<open>sobo_email\<close> when that is given, and it holds neither \<open>Authorization\<close>
  nor \<open>X-DocuSign-Act-As-User\<close>.
\<close>

theorem base_headers_auth_modes:
  "map_of (base_headers e c sobo) ''Accept'' = Some (JStr ''application/json'') \<and>
   map_of (base_headers e c sobo) ''Content-Type'' = Some (JStr ''application/json'') \<and>
   (if oauth2_token c \<noteq> [] then
      map_of (base_headers e c sobo) ''Authorization'' =
        Some (JStr (''Bearer '' @ oauth2_token c)) \<and>
      map_of (base_headers e c sobo) ''X-DocuSign-Act-As-User'' =
        (if truthy sobo then Some sobo else None) \<and>
      map_of (base_headers e c sobo) ''X-DocuSign-Authentication'' = None
    else
      map_of (base_headers e c sobo) ''X-DocuSign-Authentication'' =
        Some (JStr (dumps e (JDict ([(''Username'', JStr (username c)),
                                     (''Password'', JStr (password c)),
                                     (''IntegratorKey'', JStr (integrator_key c))] @
                                    (if truthy sobo then [(''SendOnBehalfOf'', sobo)] else []))))) \<and>
      map_of (base_headers e c sobo) ''Authorization'' = None \<and>
      map_of (base_headers e c sobo) ''X-DocuSign-Act-As-User'' = None)"
  by (simp add: base_headers_def Let_def)

section \<open>Return value of a successful request\<close>

text \<open>
  Claim C6, as amended. When the server answers and the status code is the expected one,
  \<open>_request\<close> (with any method, so also \<open>get\<close>, \<open>post\<close>, \<open>put\<close> and \<open>delete\<close>) looks at the
  response's \<open>Content-Type\<close> header, found whatever the case of its name and taken as the
  empty string when missing. If it starts with \<open>application/json\<close> and the body decodes
  as JSON, the decoded body is returned; if it starts with \<open>application/json\<close> and the
  body does not decode, the decoder's \<open>ValueError\<close> is raised and nothing is returned;
  otherwise the response's plain text is returned.
\<close>

theorem request_returns_json_or_text:
  assumes "send e (sent w) (do_request e (self w) url m hs d f s) = Inr r"
      and "status_code r = x"
  shows "fst (request_io e url m hs d f x s w) =
           (if startswith (header_get (resp_headers r) ''Content-Type'' []) ''application/json''
            then (case loads e (resp_text r) of
                    None \<Rightarrow> Inl ValueError
                  | Some j \<Rightarrow> Inr j)
            else Inr (JStr (resp_text r)))"
  using assms by (simp add: request_io_result response_json_def)

theorem request_returns_json_or_text_witness:
  "fst (request_io (canned 200 ''application/json; charset=utf-8'' (Some (JDict [])))
          ''/accounts'' GET [] JNone JNone 200 JNone world0) = Inr (JDict []) \<and>
   fst (request_io (canned 200 ''text/plain'' (Some (JDict [])))
          ''/accounts'' DELETE [] JNone JNone 200 JNone world0) = Inr (JStr ''body'') \<and>
   fst (request_io
          ((canned 200 [] (Some (JList [])))
             \<lparr>send := (\<lambda>_ _. Inr \<lparr>status_code = 200,
                                   resp_headers = [(''content-type'', ''application/json'')],
                                   resp_text = ''[]''\<rparr>)\<rparr>)
          ''/accounts'' GET [] JNone JNone 200 JNone world0) = Inr (JList [])"
proof -
  let ?e1 = "canned 200 ''application/json; charset=utf-8'' (Some (JDict []))"
  let ?e2 = "canned 200 ''text/plain'' (Some (JDict []))"
  let ?r1 = "\<lparr>status_code = 200,
              resp_headers = [(''Content-Type'', ''application/json; charset=utf-8'')],
              resp_text = ''body''\<rparr>"
  let ?r2 = "\<lparr>status_code = 200, resp_headers = [(''Content-Type'', ''text/plain'')],
              resp_text = ''body''\<rparr>"
  let ?r3 = "\<lparr>status_code = 200, resp_headers = [(''content-type'', ''application/json'')],
              resp_text = ''[]''\<rparr>"
  let ?e3 = "(canned 200 [] (Some (JList [])))\<lparr>send := (\<lambda>_ _. Inr ?r3)\<rparr>"
  have s1: "send ?e1 (sent world0)
              (do_request ?e1 (self world0) ''/accounts'' GET [] JNone JNone JNone) = Inr ?r1"
    by (simp add: canned_def)
  have s2: "send ?e2 (sent world0)
              (do_request ?e2 (self world0) ''/accounts'' DELETE [] JNone JNone JNone) = Inr ?r2"
    by (simp add: canned_def)
  have s3: "send ?e3 (sent world0)
              (do_request ?e3 (self world0) ''/accounts'' GET [] JNone JNone JNone) = Inr ?r3"
    by simp
  have c: "status_code ?r1 = 200" "status_code ?r2 = 200" "status_code ?r3 = 200"
    by simp_all
  have h: "header_get [(''Content-Type'', ''application/json; charset=utf-8'')] ''Content-Type'' [] =
             ''application/json; charset=utf-8''"
          "header_get [(''Content-Type'', ''text/plain'')] ''Content-Type'' [] = ''text/plain''"
          "header_get [(''content-type'', ''application/json'')] ''Content-Type'' [] =
             ''application/json''"
    by (simp_all add: header_get_def lower_def lower_char_def)
  have l: "loads ?e1 t = Some (JDict [])"
          "loads (canned 200 [] (Some (JList []))) t = Some (JList [])" for t
    by (simp_all add: canned_def)
  from request_returns_json_or_text [OF s1 c(1)]
  have 1: "fst (request_io ?e1 ''/accounts'' GET [] JNone JNone 200 JNone world0) = Inr (JDict [])"
    by (simp add: h l startswith_def)
  from request_returns_json_or_text [OF s2 c(2)]
  have 2: "fst (request_io ?e2 ''/accounts'' DELETE [] JNone JNone 200 JNone world0) =
             Inr (JStr ''body'')"
    by (simp add: h startswith_def)
  from request_returns_json_or_text [OF s3 c(3)]
  have 3: "fst (request_io ?e3 ''/accounts'' GET [] JNone JNone 200 JNone world0) = Inr (JList [])"
    by (simp add: h l startswith_def)
  from 1 2 3 show ?thesis by simp
qed

text \<open>
  Claim C6 as it was stated fails: a response with the expected status code 201, declared
  as JSON, whose body does not decode makes \<open>_request\<close> return nothing; it raises
  \<open>ValueError\<close>.
\<close>

theorem undecodable_json_returns_nothing_counterexample:
  "send (canned 201 ''application/json'' None) []
     (do_request (canned 201 ''application/json'' None) client0 ''/accounts'' POST []
        (JDict []) JNone JNone) =
     Inr \<lparr>status_code = 201, resp_headers = [(''Content-Type'', ''application/json'')],
          resp_text = ''body''\<rparr> \<and>
   fst (request_io (canned 201 ''application/json'' None) ''/accounts'' POST []
          (JDict []) JNone 201 JNone world0) = Inl ValueError"
  by (simp add: eval_defs)

section \<open>Status codes and exceptions\<close>

text \<open>
  Claim C1, as amended. Whenever the server answers a call of \<open>_request\<close> (with any
  method, so also \<open>get\<close>, \<open>post\<close>, \<open>put\<close> and \<open>delete\<close>): if the status code differs from the
  expected one, \<open>DocuSignException\<close> is raised, built from a message that names the method,
  the URL, both status codes and the response's text, and nothing is returned. If the
  status code is the expected one, no \<open>DocuSignException\<close> is raised, and the only
  exception there can be is the decoder's \<open>ValueError\<close>, for a body that is declared as
  JSON and does not decode.
  Whenever the server answers \<open>_create_envelope\<close>: a status code other than 201 raises
  \<open>DocuSignException\<close> built from the \<open>Response\<close> tuple of that status code and text, and
  status code 201 raises no \<open>DocuSignException\<close>.
\<close>

theorem status_code_check:
  "(send e (sent w) (do_request e (self w) url m hs d f s) = Inr r \<longrightarrow>
      (status_code r \<noteq> x \<longrightarrow>
         request_io e url m hs d f x s w =
           (Inl (DocuSignException (Message
              (request_failed_msg e m (root_url (self w) @ url) (status_code r) x (resp_text r)))),
            w\<lparr>sent := sent w @ [do_request e (self w) url m hs d f s]\<rparr>)) \<and>
      (status_code r = x \<longrightarrow>
         (\<forall>a. fst (request_io e url m hs d f x s w) \<noteq> Inl (DocuSignException a)) \<and>
         (\<forall>err. fst (request_io e url m hs d f x s w) = Inl err \<longrightarrow>
            err = ValueError \<and> loads e (resp_text r) = None \<and>
            startswith (header_get (resp_headers r) ''Content-Type'' []) ''application/json''))) \<and>
   (send e (sent w) (curl_request (self w) p) = Inr r' \<longrightarrow>
      (status_code r' \<noteq> 201 \<longrightarrow>
         fst (fst (create_envelope e this envelope p w)) =
           Inl (DocuSignException (Resp (status_code r') (resp_text r')))) \<and>
      (status_code r' = 201 \<longrightarrow>
         (\<forall>a. fst (fst (create_envelope e this envelope p w)) \<noteq> Inl (DocuSignException a))))"
proof (intro conjI impI)
  assume r: "send e (sent w) (do_request e (self w) url m hs d f s) = Inr r"
  { assume "status_code r \<noteq> x"
    with request_io_result [OF r, of x] request_io_sent [of e url m hs d f x s w]
    show "request_io e url m hs d f x s w =
           (Inl (DocuSignException (Message
              (request_failed_msg e m (root_url (self w) @ url) (status_code r) x (resp_text r)))),
            w\<lparr>sent := sent w @ [do_request e (self w) url m hs d f s]\<rparr>)"
      by (cases "request_io e url m hs d f x s w") simp }
  { assume "status_code r = x"
    with request_io_result [OF r, of x]
    show "\<forall>a. fst (request_io e url m hs d f x s w) \<noteq> Inl (DocuSignException a)"
      and "\<forall>err. fst (request_io e url m hs d f x s w) = Inl err \<longrightarrow>
            err = ValueError \<and> loads e (resp_text r) = None \<and>
            startswith (header_get (resp_headers r) ''Content-Type'' []) ''application/json''"
      by (auto simp: response_json_def split: if_splits option.splits) }
next
  assume r': "send e (sent w) (curl_request (self w) p) = Inr r'"
  { assume "status_code r' \<noteq> 201"
    with create_envelope_result [OF r']
    show "fst (fst (create_envelope e this envelope p w)) =
           Inl (DocuSignException (Resp (status_code r') (resp_text r')))"
      by simp }
  { assume "status_code r' = 201"
    with create_envelope_result [OF r', of this envelope]
    show "\<forall>a. fst (fst (create_envelope e this envelope p w)) \<noteq> Inl (DocuSignException a)"
      by (auto simp: getitem_not_docusign split: option.splits) }
qed

theorem status_code_check_witness:
  "request_io (canned 404 ''text/html'' None) ''/x'' GET [] JNone JNone 200 JNone world1 =
     (Inl (DocuSignException (Message
        (request_failed_msg (canned 404 ''text/html'' None) GET
           (''https://h/v2'' @ ''/x'') 404 200 ''body''))),
      world1\<lparr>sent := [do_request (canned 404 ''text/html'' None) (self world1)
                          ''/x'' GET [] JNone JNone JNone]\<rparr>) \<and>
   fst (fst (create_envelope (canned 404 ''text/html'' None) (Ref 0) envelope1
               \<lparr>parts_url = ''https://h/v2/accounts/42/envelopes'', parts_headers = [],
                parts_body = []\<rparr> world1)) =
     Inl (DocuSignException (Resp 404 ''body'')) \<and>
   fst (request_io (canned 201 ''text/html'' None) ''/x'' POST [] JNone JNone 201 JNone world1) \<noteq>
     Inl (DocuSignException (Message [])) \<and>
   fst (fst (create_envelope (canned 201 ''text/html'' None) (Ref 0) envelope1
               \<lparr>parts_url = ''https://h/v2/accounts/42/envelopes'', parts_headers = [],
                parts_body = []\<rparr> world1)) \<noteq>
     Inl (DocuSignException (Resp 201 ''body''))"
proof -
  let ?p = "\<lparr>parts_url = ''https://h/v2/accounts/42/envelopes'', parts_headers = [],
             parts_body = []\<rparr>"
  let ?r = "\<lambda>n. \<lparr>status_code = n, resp_headers = [(''Content-Type'', ''text/html'')],
                   resp_text = ''body''\<rparr>"
  let ?e = "\<lambda>n. canned n ''text/html'' None"
  have a: "send (?e n) (sent world1) (do_request (?e n) (self world1) ''/x'' m [] JNone JNone JNone) =
           Inr (?r n)" for n m
    by (simp add: canned_def)
  have b: "send (?e n) (sent world1) (curl_request (self world1) ?p) = Inr (?r n)" for n
    by (simp add: canned_def)
  show ?thesis
    using status_code_check [of "?e 404" world1 "''/x''" GET "[]" JNone JNone JNone
              "?r 404" 200 ?p "?r 404" "Ref 0" envelope1]
          status_code_check [of "?e 201" world1 "''/x''" POST "[]" JNone JNone JNone
              "?r 201" 201 ?p "?r 201" "Ref 0" envelope1]
          a b
    by (simp add: world1_def client0_def)
qed

text \<open>
  Claim C1 as it was stated fails: a response with the expected status code 200, declared
  as JSON, whose body does not decode makes \<open>_request\<close> raise \<open>ValueError\<close>; and the
  \<open>DocuSignException\<close> of \<open>_request\<close> is built from a message, not from the response.
\<close>

theorem expected_status_raises_counterexample:
  "send (canned 200 ''application/json'' None) []
     (do_request (canned 200 ''application/json'' None) client0 ''/x'' GET [] JNone JNone JNone) =
     Inr \<lparr>status_code = 200, resp_headers = [(''Content-Type'', ''application/json'')],
          resp_text = ''body''\<rparr> \<and>
   fst (request_io (canned 200 ''application/json'' None) ''/x'' GET [] JNone JNone 200 JNone world0) =
     Inl ValueError \<and>
   fst (request_io (canned 404 ''text/html'' None) ''/x'' GET [] JNone JNone 200 JNone world0) =
     Inl (DocuSignException (Message
       ''DocuSign request failed: GET https://h/v2/x returned code 404 while expecting code 200; Message: body ; ''))"
  by (simp add: eval_defs decimal.simps)

section \<open>OAuth2 token request and revocation\<close>

text \<open>
  Claim C7, as amended. Whenever the server answers \<open>oauth2_token_request\<close> or
  \<open>oauth2_token_revoke\<close> with a status code other than 200, the method raises
  \<open>DocuSignOAuth2Exception\<close>, built from the decoded body, if the body decodes as JSON, and
  the decoder's \<open>ValueError\<close> if it does not. On status code 200 neither raises
  \<open>DocuSignOAuth2Exception\<close>; \<open>oauth2_token_request\<close> returns the \<open>access_token\<close> entry of a
  body that decodes to a dictionary with that entry, and \<open>oauth2_token_revoke\<close> returns
  \<open>None\<close>. \<open>DocuSignOAuth2Exception\<close> is never a \<open>DocuSignException\<close> as built by the client.
\<close>

theorem oauth2_status_check:
  "(send e hist (token_request rooturl user pass key) = Inr r \<longrightarrow>
      (status_code r \<noteq> 200 \<longrightarrow>
         fst (oauth2_token_request e rooturl user pass key hist) =
           (case loads e (resp_text r) of
              None \<Rightarrow> Inl ValueError
            | Some body \<Rightarrow> Inl (DocuSignOAuth2Exception body))) \<and>
      (status_code r = 200 \<longrightarrow>
         (\<forall>body. fst (oauth2_token_request e rooturl user pass key hist) \<noteq>
                  Inl (DocuSignOAuth2Exception body)) \<and>
         (\<forall>kvs v. loads e (resp_text r) = Some (JDict kvs) \<and> map_of kvs ''access_token'' = Some v \<longrightarrow>
                  fst (oauth2_token_request e rooturl user pass key hist) = Inr v))) \<and>
   (send e hist (revoke_request rooturl token) = Inr r' \<longrightarrow>
      (status_code r' \<noteq> 200 \<longrightarrow>
         fst (oauth2_token_revoke e rooturl token hist) =
           (case loads e (resp_text r') of
              None \<Rightarrow> Inl ValueError
            | Some body \<Rightarrow> Inl (DocuSignOAuth2Exception body))) \<and>
      (status_code r' = 200 \<longrightarrow> fst (oauth2_token_revoke e rooturl token hist) = Inr JNone)) \<and>
   (\<forall>body a. DocuSignOAuth2Exception body \<noteq> DocuSignException a)"
proof -
  have get: "getitem v k \<noteq> Inl (DocuSignOAuth2Exception b)" for v k b
    by (cases v) (auto split: option.splits)
  show ?thesis
    by (auto simp: oauth2_token_request_def oauth2_token_revoke_def response_json_def Let_def get
             split: option.splits)
qed

theorem oauth2_status_check_witness:
  "fst (oauth2_token_request (canned 401 ''application/json'' (Some (JDict [(''error'', JStr ''invalid_grant'')])))
          ''https://h/v2'' ''u'' ''p'' ''k'' []) =
     Inl (DocuSignOAuth2Exception (JDict [(''error'', JStr ''invalid_grant'')])) \<and>
   fst (oauth2_token_revoke (canned 401 ''application/json'' (Some (JDict [(''error'', JStr ''invalid_grant'')])))
          ''https://h/v2'' (JStr ''t'') []) =
     Inl (DocuSignOAuth2Exception (JDict [(''error'', JStr ''invalid_grant'')])) \<and>
   fst (oauth2_token_request (canned 200 ''application/json'' (Some (JDict [(''access_token'', JStr ''t'')])))
          ''https://h/v2'' ''u'' ''p'' ''k'' []) = Inr (JStr ''t'') \<and>
   fst (oauth2_token_revoke (canned 200 ''application/json'' (Some (JDict [(''access_token'', JStr ''t'')])))
          ''https://h/v2'' (JStr ''t'') []) = Inr JNone"
proof -
  let ?r = "\<lambda>n. \<lparr>status_code = n, resp_headers = [(''Content-Type'', ''application/json'')],
                   resp_text = ''body''\<rparr>"
  let ?e = "\<lambda>n j. canned n ''application/json'' (Some j)"
  have a: "send (?e n j) [] rq = Inr (?r n)" for n j rq
    by (simp add: canned_def)
  have l: "loads (?e n j) t = Some j" for n j t
    by (simp add: canned_def)
  show ?thesis
    using oauth2_status_check [of "?e 401 (JDict [(''error'', JStr ''invalid_grant'')])" "[]"
             "''https://h/v2''" "''u''" "''p''" "''k''" "?r 401" "JStr ''t''" "?r 401"]
          oauth2_status_check [of "?e 200 (JDict [(''access_token'', JStr ''t'')])" "[]"
             "''https://h/v2''" "''u''" "''p''" "''k''" "?r 200" "JStr ''t''" "?r 200"]
    by (simp add: a l)
qed

text \<open>
  Claim C7 as it was stated fails: on status code 502 with a body that is not JSON, both
  methods raise \<open>ValueError\<close> and no \<open>DocuSignOAuth2Exception\<close>.
\<close>

theorem oauth2_error_body_counterexample:
  "send (canned 502 ''text/html'' None) [] (token_request ''https://h/v2'' ''u'' ''p'' ''k'') =
     Inr \<lparr>status_code = 502, resp_headers = [(''Content-Type'', ''text/html'')],
          resp_text = ''body''\<rparr> \<and>
   fst (oauth2_token_request (canned 502 ''text/html'' None) ''https://h/v2'' ''u'' ''p'' ''k'' []) =
     Inl ValueError \<and>
   fst (oauth2_token_revoke (canned 502 ''text/html'' None) ''https://h/v2'' (JStr ''t'') []) =
     Inl ValueError"
  by (simp add: oauth2_token_request_def oauth2_token_revoke_def response_json_def canned_def Let_def)

section \<open>Login\<close>

text \<open>
  Claim C5. If \<open>login_information\<close> returns, then what it returns is the value that its
  \<open>GET /login_information\<close> produced, a dictionary whose \<open>loginAccounts\<close> entry is a list
  with a first entry that has an \<open>accountId\<close>; the client's \<open>account_id\<close> is that
  \<open>accountId\<close>, its \<open>account_url\<close> is \<open>root_url\<close> followed by \<open>/accounts/\<close> and that
  \<open>account_id\<close> as \<open>format\<close> renders it, every other field of the client is as before,
  and one request, the login request, has been issued.
\<close>

theorem login_information_success:
  assumes "login_information e w = (Inr data, w')"
  shows "fst (get_io e ''/login_information'' [] JNone JNone 200 JNone w) = Inr data \<and>
         (\<exists>d fd rest a.
            data = JDict d \<and>
            map_of d ''loginAccounts'' = Some (JList (JDict fd # rest)) \<and>
            map_of fd ''accountId'' = Some a \<and>
            w' = \<lparr>self = (self w)\<lparr>account_id := a,
                                    account_url := root_url (self w) @ ''/accounts/'' @ fmt e a\<rparr>,
                  sent = sent w @ [login_request e (self w)]\<rparr>)"
proof -
  let ?g = "get_io e ''/login_information'' [] JNone JNone 200 JNone w"
  have snd_g: "snd ?g = w\<lparr>sent := sent w @ [login_request e (self w)]\<rparr>"
    by (simp add: get_io_def request_io_sent login_request_def)
  obtain r wg where g: "?g = (r, wg)" by (cases ?g)
  from assms g obtain accs first a where
    r: "r = Inr data" and
    accs: "getitem data ''loginAccounts'' = Inr accs" and
    first: "getitem0 accs = Inr first" and
    a: "getitem first ''accountId'' = Inr a" and
    w': "w' = wg\<lparr>self := (self wg)\<lparr>account_id := a,
                  account_url := account_url_of e (root_url (self wg)) a\<rparr>\<rparr>"
    by (auto simp: login_information_def bind_io_def lift_io_def Let_def
             split: sum.splits prod.splits)
  from g snd_g have wg: "wg = w\<lparr>sent := sent w @ [login_request e (self w)]\<rparr>" by simp
  from getitem_Inr[OF accs] obtain d where d: "data = JDict d" "map_of d ''loginAccounts'' = Some accs"
    by blast
  from getitem_Inr[OF a] obtain fd where fd: "first = JDict fd" "map_of fd ''accountId'' = Some a"
    by blast
  from getitem0_Inr_dict first fd(1) obtain rest where rest: "accs = JList (JDict fd # rest)"
    by blast
  show ?thesis
    using g r d fd rest w' wg by (cases w) (simp add: account_url_of_def)
qed

theorem login_information_success_witness:
  "login_information
     (canned 200 ''application/json''
        (Some (JDict [(''loginAccounts'', JList [JDict [(''accountId'', JStr ''42'')]])])))
     world0 =
     (Inr (JDict [(''loginAccounts'', JList [JDict [(''accountId'', JStr ''42'')]])]),
      \<lparr>self = client0\<lparr>account_id := JStr ''42'', account_url := ''https://h/v2/accounts/42''\<rparr>,
       sent = [login_request
                 (canned 200 ''application/json''
                    (Some (JDict [(''loginAccounts'', JList [JDict [(''accountId'', JStr ''42'')]])])))
                 client0]\<rparr>) \<and>
   fst (get_io
          (canned 200 ''application/json''
             (Some (JDict [(''loginAccounts'', JList [JDict [(''accountId'', JStr ''42'')]])])))
          ''/login_information'' [] JNone JNone 200 JNone world0) =
     Inr (JDict [(''loginAccounts'', JList [JDict [(''accountId'', JStr ''42'')]])])"
proof -
  let ?d = "JDict [(''loginAccounts'', JList [JDict [(''accountId'', JStr ''42'')]])]"
  let ?e = "canned 200 ''application/json'' (Some ?d)"
  let ?w = "\<lparr>self = client0\<lparr>account_id := JStr ''42'', account_url := ''https://h/v2/accounts/42''\<rparr>,
             sent = [login_request ?e client0]\<rparr>"
  have run: "login_information ?e world0 = (Inr ?d, ?w)"
    by (simp add: login_information_def get_io_def bind_io_def lift_io_def account_url_of_def
          login_request_def eval_defs)
  from login_information_success [OF run] run show ?thesis
    by simp
qed

section \<open>Account information\<close>

text \<open>
  Claim C9. Called with an argument other than \<open>None\<close>, \<open>get_account_information\<close> requests
  \<open>root_url\<close> followed by \<open>/accounts/\<close>, the client's own \<open>account_id\<close> and a slash: the
  argument does not enter the URL, and any two arguments other than \<open>None\<close> give the same
  outcome and the same request. Called with \<open>None\<close>, it requests \<open>root_url\<close> followed by
  the stored \<open>account_url\<close>.
\<close>

theorem account_information_ignores_argument:
  "(a \<noteq> JNone \<longrightarrow>
      snd (get_account_information e a w) =
        w\<lparr>sent := sent w @
               [do_request e (self w) (''/accounts/'' @ fmt e (account_id (self w)) @ ''/'')
                  GET [] JNone JNone JNone]\<rparr> \<and>
      req_url (last (sent (snd (get_account_information e a w)))) =
        root_url (self w) @ ''/accounts/'' @ fmt e (account_id (self w)) @ ''/'') \<and>
   (a \<noteq> JNone \<and> b \<noteq> JNone \<longrightarrow>
      get_account_information e a w = get_account_information e b w) \<and>
   snd (get_account_information e JNone w) =
     w\<lparr>sent := sent w @
            [do_request e (self w) (account_url (self w)) GET [] JNone JNone JNone]\<rparr> \<and>
   req_url (last (sent (snd (get_account_information e JNone w)))) =
     root_url (self w) @ account_url (self w)"
  by (simp add: get_account_information_def account_information_url_def get_io_def
        request_io_sent do_request_url)

theorem account_information_ignores_argument_witness:
  "req_url (last (sent (snd (get_account_information (canned 200 [] None) (JStr ''999'') world1)))) =
     ''https://h/v2/accounts/42/'' \<and>
   get_account_information (canned 200 [] None) (JStr ''999'') world1 =
     get_account_information (canned 200 [] None) (JInt 7) world1"
proof -
  have ne: "JStr ''999'' \<noteq> JNone \<and> JInt 7 \<noteq> JNone" by simp
  with account_information_ignores_argument
         [of "JStr ''999''" "canned 200 [] None" world1 "JInt 7"]
  have "req_url (last (sent (snd (get_account_information (canned 200 [] None) (JStr ''999'') world1)))) =
          root_url (self world1) @ ''/accounts/'' @
          fmt (canned 200 [] None) (account_id (self world1)) @ ''/''"
    and "get_account_information (canned 200 [] None) (JStr ''999'') world1 =
         get_account_information (canned 200 [] None) (JInt 7) world1"
    by blast+
  then show ?thesis
    by (simp add: world1_def client0_def fmt_def)
qed

section \<open>Lazy login\<close>

text \<open>
  Claim C4. Take any account-scoped operation: the envelope, custom-field, recipient,
  document, template and audit-event methods and the two builders of the envelope
  creation request. Run from a world whose client has an empty \<open>account_url\<close>, the first
  request it issues is the login request, a \<open>GET\<close> of \<open>root_url\<close> followed by
  \<open>/login_information\<close>. Run from a world whose client has an \<open>account_url\<close>, it does not
  touch the client, issues at most one request, and that request does not go to the
  login URL.
\<close>

theorem login_first_iff_no_account_url:
  "(account_url (self w) = [] \<longrightarrow>
      (\<exists>rest. sent (snd (run e op w)) = sent w @ login_request e (self w) # rest)) \<and>
   (account_url (self w) \<noteq> [] \<longrightarrow>
      (\<exists>new. snd (run e op w) = w\<lparr>sent := sent w @ new\<rparr> \<and> length new \<le> 1 \<and>
             (\<forall>rq\<in>set new. req_url rq \<noteq> root_url (self w) @ ''/login_information''))) \<and>
   req_method (login_request e (self w)) = GET \<and>
   req_url (login_request e (self w)) = root_url (self w) @ ''/login_information''"
proof (intro conjI impI)
  assume "account_url (self w) = []"
  with run_guarded [of e w op]
  show "\<exists>rest. sent (snd (run e op w)) = sent w @ login_request e (self w) # rest"
    by (simp add: guarded_by_login_def)
next
  assume "account_url (self w) \<noteq> []"
  with run_guarded [of e w op]
  consider "snd (run e op w) = w"
    | rq p where "snd (run e op w) = w\<lparr>sent := sent w @ [rq]\<rparr>"
        "req_url rq = root_url (self w) @ ''/accounts/'' @ p"
    by (auto simp: guarded_by_login_def)
  then show "\<exists>new. snd (run e op w) = w\<lparr>sent := sent w @ new\<rparr> \<and> length new \<le> 1 \<and>
             (\<forall>rq\<in>set new. req_url rq \<noteq> root_url (self w) @ ''/login_information'')"
  proof cases
    case 1
    then show ?thesis by (intro exI [of _ "[]"]) simp
  next
    case 2
    then show ?thesis by (intro exI [of _ "[rq]"]) simp
  qed
qed (simp_all add: login_request_def do_request_def Let_def)

theorem login_first_iff_no_account_url_witness:
  "(\<exists>rest. sent (snd (run (canned 200 [] None) (Get_envelope (JStr ''e1'')) world0)) =
            sent world0 @ login_request (canned 200 [] None) (self world0) # rest) \<and>
   (\<exists>new. snd (run (canned 200 [] None) (Get_envelope (JStr ''e1'')) world1) =
             world1\<lparr>sent := sent world1 @ new\<rparr> \<and> length new \<le> 1 \<and>
           (\<forall>rq\<in>set new. req_url rq \<noteq> root_url (self world1) @ ''/login_information''))"
proof -
  have a: "account_url (self world0) = []" by (simp add: world0_def client0_def)
  have b: "account_url (self world1) \<noteq> []" by (simp add: world1_def client0_def)
  from a b login_first_iff_no_account_url [of world0 "canned 200 [] None" "Get_envelope (JStr ''e1'')"]
    login_first_iff_no_account_url [of world1 "canned 200 [] None" "Get_envelope (JStr ''e1'')"]
  show ?thesis by blast
qed

section \<open>What envelope creation writes into the envelope\<close>

text \<open>
  Claim C10. Let the server answer the POST of \<open>_create_envelope\<close> with status code 201
  and a body that decodes to a dictionary with an \<open>envelopeId\<close>. Then the method returns
  that \<open>envelopeId\<close>; \<open>envelope.client\<close> becomes the client if it was \<open>None\<close> and stays as it
  was otherwise; \<open>envelope.envelopeId\<close> becomes the returned one if it was falsy and stays
  as it was otherwise, whatever the server returned; and nothing else changes but the
  list of requests. The same holds of \<open>create_envelope_from_template\<close> and
  \<open>create_envelope_from_document\<close> when their request builder produced the parts posted,
  where the document builder has only rewound and read the documents' files.
\<close>

theorem create_envelope_sets_only_unset:
  assumes "send e (sent w) (curl_request (self w) p) = Inr r"
      and "status_code r = 201"
      and "loads e (resp_text r) = Some response_data"
      and "getitem response_data ''envelopeId'' = Inr eid"
  shows "create_envelope e this v p w =
           ((Inr eid,
             v\<lparr>env_client := (if env_client v = None then Some this else env_client v),
               envelopeId := (if truthy (envelopeId v) then envelopeId v else eid)\<rparr>),
            w\<lparr>sent := sent w @ [curl_request (self w) p]\<rparr>) \<and>
         (create_envelope_from_template_request e v w0 = (Inr p, w) \<longrightarrow>
            create_envelope_from_template e this v w0 =
              ((Inr eid,
                v\<lparr>env_client := (if env_client v = None then Some this else env_client v),
                  envelopeId := (if truthy (envelopeId v) then envelopeId v else eid)\<rparr>),
               w\<lparr>sent := sent w @ [curl_request (self w) p]\<rparr>)) \<and>
         (create_envelope_from_document_request e v w0 = (Inr (p, v'), w) \<longrightarrow>
            env_client v' = env_client v \<and> envelopeId v' = envelopeId v \<and>
            create_envelope_from_document e this v w0 =
              ((Inr eid,
                v'\<lparr>env_client := (if env_client v = None then Some this else env_client v),
                   envelopeId := (if truthy (envelopeId v) then envelopeId v else eid)\<rparr>),
               w\<lparr>sent := sent w @ [curl_request (self w) p]\<rparr>))"
proof -
  have main: "create_envelope e this u p w =
           ((Inr eid,
             u\<lparr>env_client := (if env_client u = None then Some this else env_client u),
               envelopeId := (if truthy (envelopeId u) then envelopeId u else eid)\<rparr>),
            w\<lparr>sent := sent w @ [curl_request (self w) p]\<rparr>)" for u
    using assms by (simp add: create_envelope_def perform_def Let_def)
  have tmpl: "create_envelope_from_template_request e v w0 = (Inr p, w) \<Longrightarrow>
      create_envelope_from_template e this v w0 = create_envelope e this v p w"
    by (simp add: create_envelope_from_template_def)
  have doc: "create_envelope_from_document_request e v w0 = (Inr (p, v'), w) \<Longrightarrow>
      create_envelope_from_document e this v w0 = create_envelope e this v' p w"
    by (simp add: create_envelope_from_document_def)
  have keep: "create_envelope_from_document_request e v w0 = (Inr (p, v'), w) \<Longrightarrow>
      env_client v' = env_client v \<and> envelopeId v' = envelopeId v"
    using document_request_envelope [of e v w0 p v' w] by auto
  show ?thesis
    using main [of v] main [of v'] tmpl doc keep by simp
qed


theorem create_envelope_sets_only_unset_witness:
  "fst (create_envelope_from_document
          (canned 201 [] (Some (JDict [(''envelopeId'', JStr ''e1'')]))) (Ref 7) envelope1 world1) =
     (Inr (JStr ''e1''), envelope1\<lparr>env_client := Some (Ref 7), envelopeId := JStr ''e1''\<rparr>) \<and>
   fst (create_envelope_from_template
          (canned 201 [] (Some (JDict [(''envelopeId'', JStr ''e1'')]))) (Ref 7)
          (envelope1\<lparr>env_client := Some (Ref 1), envelopeId := JStr ''old''\<rparr>) world1) =
     (Inr (JStr ''e1''), envelope1\<lparr>env_client := Some (Ref 1), envelopeId := JStr ''old''\<rparr>)"
proof -
  let ?e = "canned 201 [] (Some (JDict [(''envelopeId'', JStr ''e1'')]))"
  let ?r = "\<lparr>status_code = 201, resp_headers = [(''Content-Type'', [])], resp_text = ''body''\<rparr>"
  let ?v = "envelope1\<lparr>env_client := Some (Ref 1), envelopeId := JStr ''old''\<rparr>"
  have guard: "login_if_no_account_url ?e world1 = (Inr (), world1)"
    by (simp add: login_if_no_account_url_def return_io_def world1_def)
  obtain p where p: "create_envelope_from_document_request ?e envelope1 world1 =
                       (Inr (p, envelope1), world1)"
    by (simp add: create_envelope_from_document_request_def bind_io_def guard Let_def
          envelope1_def read_def seek_def split: prod.splits)
  obtain q where q: "create_envelope_from_template_request ?e ?v world1 = (Inr q, world1)"
    by (simp add: create_envelope_from_template_request_def bind_io_def guard Let_def)
  have s: "send ?e (sent world1) (curl_request (self world1) x) = Inr ?r" for x
    by (simp add: canned_def)
  have c: "status_code ?r = 201" by simp
  have l: "loads ?e (resp_text ?r) = Some (JDict [(''envelopeId'', JStr ''e1'')])"
    by (simp add: canned_def)
  have g: "getitem (JDict [(''envelopeId'', JStr ''e1'')]) ''envelopeId'' = Inr (JStr ''e1'')"
    by simp
  from create_envelope_sets_only_unset
         [where p = p and this = "Ref 7" and v = envelope1 and ?w0.0 = world1 and v' = envelope1,
          OF s c l g] p
  have 1: "fst (create_envelope_from_document ?e (Ref 7) envelope1 world1) =
             (Inr (JStr ''e1''), envelope1\<lparr>env_client := Some (Ref 7), envelopeId := JStr ''e1''\<rparr>)"
    by (simp add: envelope1_def)
  from create_envelope_sets_only_unset
         [where p = q and this = "Ref 7" and v = ?v and ?w0.0 = world1 and v' = ?v,
          OF s c l g] q
  have 2: "fst (create_envelope_from_template ?e (Ref 7) ?v world1) = (Inr (JStr ''e1''), ?v)"
    by (simp add: envelope1_def)
  from 1 2 show ?thesis by simp
qed

section \<open>The multipart body of a document request\<close>

text \<open>
  Claim C3 does not hold of the code. The request built for an envelope with one
  document, evaluated below, has the right headers, with a \<open>Content-Length\<close> that is the
  length of the body, and reads the file from position 0. But after the JSON part the
  body has the delimiter line \<open>--myboundary\<close> twice in a row: one from the body template
  and one from the document's own part. Between the two lies a part with no header and no
  content, so the JSON part is not followed by one part per document. Each document's
  bytes are also followed by two line ends, of which only one belongs to the next
  delimiter. Lemma \<open>document_request_body_two_delimiters\<close> shows the doubled delimiter for
  every envelope that has a document.
\<close>

theorem document_request_at_one_document:
  "create_envelope_from_document_request (canned 200 [] None) envelope1 world1 =
     (Inr (\<lparr>parts_url = ''https://h/v2/accounts/42/envelopes'',
            parts_headers =
              [(''Accept'', JStr ''application/json''),
               (''Content-Type'', JStr ''multipart/form-data; boundary=myboundary''),
               (''X-DocuSign-Authentication'', JStr ''{}''),
               (''Content-Length'', JInt 248)],
            parts_body =
              crlf @
              crlf @
              ''--myboundary'' @ crlf @
              ''Content-Type: application/json; charset=UTF-8'' @ crlf @
              ''Content-Disposition: form-data'' @ crlf @
              crlf @
              ''{}'' @ crlf @
              ''--myboundary'' @ crlf @
              ''--myboundary'' @ crlf @
              ''Content-Type:application/pdf'' @ crlf @
              ''Content-Disposition: file; filename='' @ [CHR 0x22] @ ''a.pdf'' @ [CHR 0x22] @
              ''; documentId=1 '' @ crlf @
              crlf @
              ''PDF'' @ crlf @
              crlf @
              ''--myboundary--'' @ crlf @
              crlf\<rparr>,
           envelope1), world1)"
  by (simp add: create_envelope_from_document_request_def login_if_no_account_url_def
        bind_io_def return_io_def document_request_body_def document_part_def
        multipart_headers_def base_headers_def read_def seek_def crlf_def fmt_def
        canned_def str_int_def decimal.simps world1_def client0_def envelope1_def Let_def)

end
